theory Spec2Isabelle
  imports Main "HOL-Library.Word"
begin

unbundle bit_operations_syntax

section \<open>Machine types and memory\<close>

text \<open>
  The codec is C code working on raw pointers. Bytes are \<open>8 word\<close>, \<open>ushort\<close> is
  \<open>16 word\<close>, \<open>uint\<close>/\<open>int\<close> are \<open>32 word\<close> (read with \<open>unat\<close> or \<open>sint\<close>
  as the source's comparison demands). A pointer is modelled by the bytes found at and
  after it, as a function of the offset: the source never carries a bound with a
  pointer and never checks one.
\<close>

type_synonym u8 = "8 word"
type_synonym u16 = "16 word"
type_synonym u32 = "32 word"
type_synonym mem = "nat \<Rightarrow> u8"
type_synonym smem = "int \<Rightarrow> u8"

text \<open>C shifts of a \<open>uint\<close> by a \<open>uint\<close> amount (the source masks every amount with \<open>0x1f\<close>).\<close>

definition shl32 :: "u32 \<Rightarrow> u32 \<Rightarrow> u32" where
  "shl32 x n = push_bit (unat n) x"

definition shr32 :: "u32 \<Rightarrow> u32 \<Rightarrow> u32" where
  "shr32 x n = drop_bit (unat n) x"

text \<open>\<open>*(ushort *)(p + off)\<close> on the little-endian target.\<close>

definition read_u16 :: "mem \<Rightarrow> nat \<Rightarrow> u16" where
  "read_u16 m off = ucast (m off) OR push_bit 8 (ucast (m (off + 1)))"

section \<open>Bits per palette index\<close>

text \<open>Halving a word above 1 makes it smaller: the measure of both bit-scanning loops.\<close>

lemma unat_drop_bit_div: "unat (drop_bit n (x::u32)) = unat x div 2 ^ n"
  by (simp only: unat_drop_bit_eq) (simp add: drop_bit_eq_div)

lemma unat_halve_less: "1 < (x::u32) \<Longrightarrow> unat (drop_bit (Suc 0) x) < unat x"
proof -
  assume "1 < x"
  then have "1 < unat x" by (simp add: word_less_nat_alt)
  then show ?thesis unfolding unat_drop_bit_div by simp
qed

lemma halve_masked: "drop_bit (Suc 0) (p::u32) AND 0x7fff = drop_bit (Suc 0) (p AND 0xffff)"
proof -
  have a: "(0x7fff::u32) = mask 15" by (simp add: mask_eq_exp_minus_1)
  have b: "(0xffff::u32) = mask 16" by (simp add: mask_eq_exp_minus_1)
  show ?thesis unfolding a b
    by (rule bit_word_eqI) (auto simp: bit_simps)
qed

lemma get_bits_loop_decreases:
  "1 < (p::u32) AND 0xffff \<Longrightarrow> unat ((drop_bit 1 p AND 0x7fff) AND 0xffff) < unat (p AND 0xffff)"
proof -
  assume a: "1 < p AND 0xffff"
  have "(drop_bit 1 p AND 0x7fff) AND 0xffff = drop_bit (Suc 0) p AND 0x7fff"
    by (simp add: and.assoc)
  also have "\<dots> = drop_bit (Suc 0) (p AND 0xffff)" by (rule halve_masked)
  finally show ?thesis using unat_halve_less [OF a] by (simp only:)
qed

text \<open>
  \<open>divoom_image_get_bits\<close>: a ladder of comparisons for sizes up to 256 and a
  bit-scanning \<open>do \<dots> while\<close> loop above. The loop halves \<open>paletteSize\<close> until the
  value it tested was at most 1.
\<close>

function get_bits_loop :: "u32 \<Rightarrow> u32 \<Rightarrow> u32 \<Rightarrow> u32" where
  "get_bits_loop paletteSize paletteSizeMasked bitIndex =
     (let nextBitCount = bitIndex + 1;
          bitIndex1 = (if (paletteSizeMasked XOR 0xffffffff) AND 0xff \<noteq> 0 then bitIndex + 1 else bitIndex);
          bitCount = paletteSize AND 0xffff;
          paletteSizeMasked1 = (if paletteSize AND 1 \<noteq> 0 then bitIndex1 else paletteSizeMasked);
          paletteSize1 = drop_bit 1 paletteSize AND 0x7fff
      in if 1 < bitCount then get_bits_loop paletteSize1 paletteSizeMasked1 nextBitCount
         else paletteSizeMasked1)"
  by pat_completeness auto

termination
  apply (relation "measure (\<lambda>(p, m, i). unat (p AND 0xffff))")
   apply (rule wf_measure)
  apply (simp only: in_measure prod.case)
  apply (erule get_bits_loop_decreases)
  done

definition divoom_image_get_bits :: "u32 \<Rightarrow> u32" where
  "divoom_image_get_bits paletteSize =
     (let paletteSizeMasked = paletteSize AND 0xffff in
      if 0x20 < paletteSizeMasked then
        (if paletteSizeMasked < 0x101 then
           (if 0x80 < (paletteSize AND 0xffff) then 8
            else if 0x40 < (paletteSize AND 0xffff) then 7 else 6)
         else get_bits_loop paletteSize 0xff 0)
      else if 0x10 < paletteSizeMasked then 5
      else if 8 < (paletteSize AND 0xffff) then 4
      else if (paletteSize AND 0xffff) < 5 then
        (if (paletteSize AND 0xffff) < 3 then paletteSize - 1 else 2)
      else 3)"

text \<open>\<open>divoom_multipic_get_bits\<close>: the same bit scan on a byte; 0 maps to \<open>0xff\<close>.\<close>

function multipic_get_bits_loop :: "u32 \<Rightarrow> u32 \<Rightarrow> u32 \<Rightarrow> u32" where
  "multipic_get_bits_loop remainingValue bitsNeeded bitCount =
     (let nextBitCount = bitCount + 1;
          bitCount1 = (if (bitsNeeded XOR 0xffffffff) AND 0xff \<noteq> 0 then bitCount + 1 else bitCount);
          bitsNeeded1 = (if remainingValue AND 1 \<noteq> 0 then bitCount1 else bitsNeeded)
      in if 1 < remainingValue
         then multipic_get_bits_loop (drop_bit 1 remainingValue) bitsNeeded1 nextBitCount
         else bitsNeeded1)"
  by pat_completeness auto

termination
  apply (relation "measure (\<lambda>(p, m, i). unat p)")
   apply (rule wf_measure)
  apply (simp only: in_measure prod.case)
  apply (erule unat_halve_less [unfolded One_nat_def [symmetric]])
  done

definition divoom_multipic_get_bits :: "u8 \<Rightarrow> u32" where
  "divoom_multipic_get_bits v =
     (if v \<noteq> 0 then multipic_get_bits_loop (ucast v) 0xff 0 else 0xff)"

text \<open>
  What both functions compute for sizes 1 to 256, for comparison: the least number of
  bits that tells \<open>n\<close> indices apart.
\<close>

definition bits_needed :: "nat \<Rightarrow> nat" where
  "bits_needed n =
     (if n = 1 then 0 else if n = 2 then 1 else if n \<le> 4 then 2 else if n \<le> 8 then 3
      else if n \<le> 16 then 4 else if n \<le> 32 then 5 else if n \<le> 64 then 6
      else if n \<le> 128 then 7 else 8)"

section \<open>The bit reader\<close>

text \<open>
  \<open>divoom_image_get_dot_info_ex(bitfieldMap, bitOffset, bitsPerIndex)\<close> reads the field
  that starts \<open>bitOffset\<close> bits into \<open>bitfieldMap\<close>. The byte index is
  \<open>(int)bitOffset >> 3\<close>, an arithmetic shift of the offset read as a signed number:
  from bit offset \<open>2^31\<close> on it is negative and the byte is read before the pointer.
  The memory is therefore addressed by signed offsets from \<open>bitfieldMap\<close>.
\<close>

definition divoom_image_get_dot_info_ex :: "smem \<Rightarrow> u32 \<Rightarrow> u8 \<Rightarrow> u32" where
  "divoom_image_get_dot_info_ex bitfieldMap bitOffset bitsPerIndex =
    (let bitOffsetInByte = bitOffset AND 7;
         totalBits = bitOffsetInByte + ucast bitsPerIndex;
         byteIndex = sint (signed_drop_bit 3 bitOffset)
     in if 8 < totalBits
        then shl32 (shr32 (shl32 (ucast (bitfieldMap (byteIndex + 1))) ((0x10 - totalBits) AND 0x1f) AND 0xff)
                          ((0x10 - totalBits) AND 0x1f))
                   ((8 - bitOffsetInByte) AND 0x1f)
             OR ucast (drop_bit (unat bitOffsetInByte) (bitfieldMap byteIndex))
        else shr32 (shl32 (ucast (bitfieldMap byteIndex)) ((8 - totalBits) AND 0x1f) AND 0xff)
                   (((8 - totalBits) + bitOffsetInByte) AND 0x1f))"

text \<open>
  \<open>divoom_image_get_dot_info(bitfieldMap, bitsPerIndex, entryCount)\<close>: the field width
  is the low byte of the third argument and the field starts at bit
  \<open>width * bitsPerIndex\<close>, a product of two \<open>uint\<close>. The byte index is that product
  read as an \<open>int\<close> and shifted right by 3, negative from \<open>2^31\<close> on. Widths above 8
  are gathered bit by bit.
\<close>

fun get_dot_info_loop :: "smem \<Rightarrow> nat \<Rightarrow> u32 \<Rightarrow> u32 \<Rightarrow> u32 \<Rightarrow> u32 \<Rightarrow> u32" where
  "get_dot_info_loop bitfieldMap 0 byteIndex bitOffset bitCount bitfieldValue = bitfieldValue"
| "get_dot_info_loop bitfieldMap (Suc remaining) byteIndex bitOffset bitCount bitfieldValue =
     (let byteOffset = sint byteIndex;
          bitIndex = bitCount AND 0x1f;
          byteIndex1 = (if 6 <s bitOffset then byteIndex + 1 else byteIndex);
          nextBitOffset = (if bitOffset <s 7 then bitOffset + 1 else 0);
          bitfieldValue1 =
            ((- (ucast (drop_bit (unat (bitOffset AND 0x1f)) (bitfieldMap byteOffset)) AND 1))
               AND shl32 1 bitIndex) OR bitfieldValue
      in get_dot_info_loop bitfieldMap remaining byteIndex1 nextBitOffset (bitCount + 1) bitfieldValue1)"

text \<open>
  The loop above runs until its counter, started at 0, equals the width (9 to 255 at
  that point): the number of iterations is the width, passed as \<open>remaining\<close>.
\<close>

definition divoom_image_get_dot_info :: "smem \<Rightarrow> u32 \<Rightarrow> u32 \<Rightarrow> u32" where
  "divoom_image_get_dot_info bitfieldMap bitsPerIndex entryCount0 =
    (let entryCount = entryCount0 AND 0xff;
         byteIndex = signed_drop_bit 3 (entryCount * bitsPerIndex);
         bitOffset = (entryCount * bitsPerIndex) AND 7;
         byteAt = sint byteIndex
     in if 8 < entryCount
        then get_dot_info_loop bitfieldMap (unat entryCount) byteIndex bitOffset 0 0
        else let totalBits = bitOffset + entryCount
             in if 8 < totalBits
                then shl32 (shr32 (shl32 (ucast (bitfieldMap (byteAt + 1))) ((0x10 - totalBits) AND 0x1f) AND 0xff)
                                  ((0x10 - totalBits) AND 0x1f))
                           ((8 - bitOffset) AND 0x1f)
                     OR ucast (drop_bit (unat bitOffset) (bitfieldMap byteAt))
                else shr32 (shl32 (ucast (bitfieldMap byteAt)) ((8 - totalBits) AND 0x1f) AND 0xff)
                           (((8 - totalBits) + bitOffset) AND 0x1f))"

text \<open>
  The frame decoders do not call the reader: each pixel loop carries its own copy of
  the same two-branch expression, with the byte index taken by an unsigned shift of the
  running bit cursor and added to the offset of the bit stream in the frame.
\<close>

definition read_index :: "mem \<Rightarrow> nat \<Rightarrow> u32 \<Rightarrow> u8 \<Rightarrow> u32" where
  "read_index frameData bitstreamOffset bitCursor bitsPerIndex =
     (let bitOffset = bitCursor AND 7;
          byteOffset = unat (drop_bit 3 bitCursor);
          totalBits = bitOffset + ucast bitsPerIndex
      in if totalBits < 9
         then shr32 (shl32 (ucast (frameData (byteOffset + bitstreamOffset))) ((8 - totalBits) AND 0x1f) AND 0xff)
                    (((8 - totalBits) + bitOffset) AND 0x1f)
         else shl32 (shr32 (shl32 (ucast (frameData (byteOffset + bitstreamOffset + 1)))
                                  ((0x10 - totalBits) AND 0x1f) AND 0xff)
                           ((0x10 - totalBits) AND 0x1f))
                    ((8 - bitOffset) AND 0x1f)
              OR ucast (drop_bit (unat bitOffset) (frameData (byteOffset + bitstreamOffset))))"

text \<open>
  The reader as the specification words it, for comparison with the code:
  \<open>(bytes[i] >> b) & ((1<<w)-1)\<close> when \<open>b + w \<le> 8\<close>, and otherwise
  \<open>bytes[i] >> b\<close> OR-combined with
  \<open>(bytes[i+1] & ((1 << (w-(8-b)))-1)) << (8-b)\<close>. The byte array is the memory
  from the pointer on, \<open>array_at\<close>.
\<close>

definition array_at :: "smem \<Rightarrow> mem" where
  "array_at bitfieldMap = (\<lambda>i. bitfieldMap (int i))"


definition bitfield_spec :: "mem \<Rightarrow> nat \<Rightarrow> nat \<Rightarrow> nat \<Rightarrow> u32" where
  "bitfield_spec bytes i b w =
     (if b + w \<le> 8 then ucast (drop_bit b (bytes i) AND mask w)
      else ucast (drop_bit b (bytes i)) OR push_bit (8 - b) (ucast (bytes (i + 1) AND mask (w - (8 - b)))))"

section \<open>The decoder handle and the frame stream\<close>

text \<open>
  The handle is an opaque block addressed by byte offsets: palette count at 0 and
  capacity at 2 (both \<open>ushort\<close>), stream length at 4, a second length at 8 that only
  \<open>check_decode\<close> reads, the cursor at \<open>0xc\<close>, the stream pointer at \<open>0x10\<close>, the
  owned copy of the stream at \<open>0x18\<close> and the palette pointer at \<open>0x20\<close>. A null
  pointer is \<open>None\<close>.
\<close>

record decoder =
  pal_count :: u16
  pal_cap :: u16
  in_len :: u32
  in_total :: u32
  cursor :: u32
  input :: mem
  owned_input :: "mem option"
  palette :: "mem option"

text \<open>
  \<open>divoom_image_decode_add_data\<close> stores the stream in the handle and counts frames
  by walking the length-prefixed chain: stop at a byte other than \<open>0xAA\<close>, otherwise
  add the frame's 16-bit length field to the offset and go on while the offset, read
  as an \<open>int\<close>, is below the stream length. The loop has no other exit, so it is a
  partial function: \<open>None\<close> is the run that never returns.
\<close>

partial_function (option) add_data_walk :: "mem \<Rightarrow> u32 \<Rightarrow> u32 \<Rightarrow> u32 \<Rightarrow> u32 option" where
  "add_data_walk inputData inputLength frameOffset validFrameCount =
     (if inputData (unat frameOffset) \<noteq> 0xAA then Some validFrameCount
      else let validFrameCount1 = validFrameCount + 1;
               frameOffset1 = ucast (read_u16 inputData (unat frameOffset + 1)) + frameOffset
           in if frameOffset1 <s inputLength
              then add_data_walk inputData inputLength frameOffset1 validFrameCount1
              else Some validFrameCount1)"

text \<open>
  The owned copy comes from a \<open>malloc\<close> that the source does not test; the model
  takes it to succeed, with \<open>fresh\<close> for the bytes that \<open>memcpy\<close> does not write.
\<close>

definition divoom_image_decode_add_data ::
  "mem \<Rightarrow> decoder option \<Rightarrow> mem \<Rightarrow> u32 \<Rightarrow> u32 \<Rightarrow> (u32 \<times> decoder option) option" where
  "divoom_image_decode_add_data fresh decoderHandle inputData inputLength copySourceBuffer =
     (case decoderHandle of
        None \<Rightarrow> Some (0, None)
      | Some d \<Rightarrow>
          let workingInputBuffer =
                (if copySourceBuffer \<noteq> 0
                 then (\<lambda>i. if int i < sint inputLength then inputData i else fresh i)
                 else inputData);
              d1 = d\<lparr>in_len := inputLength, cursor := 0, input := workingInputBuffer,
                      owned_input := (if copySourceBuffer \<noteq> 0 then Some workingInputBuffer else None)\<rparr>
          in if inputLength <s 1 then Some (0, Some d1)
             else map_option (\<lambda>validFrameCount. (validFrameCount, Some d1))
                    (add_data_walk inputData inputLength 0 0))"

text \<open>\<open>divoom_image_decode_decode_get_pic_num\<close>: the same walk without the magic test, compared unsigned.\<close>

partial_function (option) get_pic_num_walk :: "mem \<Rightarrow> u32 \<Rightarrow> u32 \<Rightarrow> u32 \<Rightarrow> u32 option" where
  "get_pic_num_walk frameBase encodedLength frameOffset picCount =
     (let picCount1 = picCount + 1;
          frameOffset1 = ucast (read_u16 frameBase (unat frameOffset + 1)) + frameOffset
      in if frameOffset1 < encodedLength
         then get_pic_num_walk frameBase encodedLength frameOffset1 picCount1
         else Some picCount1)"

definition divoom_image_decode_decode_get_pic_num :: "mem option \<Rightarrow> u32 \<Rightarrow> u32 option" where
  "divoom_image_decode_decode_get_pic_num frameBase encodedLength =
     (case frameBase of
        None \<Rightarrow> Some 0
      | Some base \<Rightarrow> if encodedLength \<noteq> 0 then get_pic_num_walk base encodedLength 0 0 else Some 0)"

text \<open>The counting loop at the head of \<open>divoom_image_decode_decode_all\<close>.\<close>

partial_function (option) decode_all_count_frames :: "mem \<Rightarrow> u32 \<Rightarrow> u32 \<Rightarrow> u32 \<Rightarrow> u32 option" where
  "decode_all_count_frames encodedStreamBase encodedStreamLength decodeStatus frameCount =
     (if encodedStreamBase (unat decodeStatus) \<noteq> 0xAA then Some frameCount
      else let frameCount1 = frameCount + 1;
               decodeStatus1 = ucast (read_u16 encodedStreamBase (unat decodeStatus + 1)) + decodeStatus
           in if decodeStatus1 <s encodedStreamLength
              then decode_all_count_frames encodedStreamBase encodedStreamLength decodeStatus1 frameCount1
              else Some frameCount1)"


text \<open>\<open>divoom_image_decode_check_decode\<close> is where the source compares a frame's length with the bytes at hand.\<close>

definition divoom_image_decode_check_decode :: "decoder option \<Rightarrow> bool" where
  "divoom_image_decode_check_decode decoderStateAddress =
     (case decoderStateAddress of
        None \<Rightarrow> False
      | Some d \<Rightarrow>
          let totalDataLength = in_total d; consumedBytes = cursor d in
          if consumedBytes + 7 < totalDataLength
          then let frameLength = read_u16 (input d) (unat consumedBytes + 1)
               in cursor d + ucast frameLength \<le> in_total d
          else totalDataLength = in_len d)"

definition divoom_image_decode_reset :: "decoder option \<Rightarrow> decoder option" where
  "divoom_image_decode_reset decoderStateAddress = map_option (\<lambda>d. d\<lparr>cursor := 0\<rparr>) decoderStateAddress"

text \<open>Concrete streams for evaluation: the bytes of a list, and a handle placed at the start of a stream.\<close>

definition stream_of :: "u8 list \<Rightarrow> mem" where
  "stream_of bytes = (\<lambda>i. bytes ! i)"

definition handle_on :: "mem \<Rightarrow> u32 \<Rightarrow> decoder" where
  "handle_on stream len = \<lparr>pal_count = 0, pal_cap = 0, in_len = len, in_total = len, cursor = 0,
      input = stream, owned_input = None, palette = None\<rparr>"

section \<open>The palette store and the frame decoders\<close>

text \<open>
  A decoder returns 0 after printing a diagnostic with a source-line tag, or 1 after
  writing the canvas, the number of bytes it consumed and the frame delay. The model
  returns the tag on the left, and on the right the handle as the call leaves it, the
  bytes written to the pixel buffer, the byte count and the delay.
\<close>

datatype failure = Err nat

type_synonym decoded = "decoder \<times> u8 list \<times> u32 \<times> u16"

text \<open>
  Appending \<open>remaining\<close> RGB triples read at \<open>frameData + src\<close> behind the entries in
  use: the byte-wise loop of the source, which indexes the palette with the count
  truncated to 16 bits and stores the incremented count after every entry. The source
  first copies eight entries at a time when the palette, the frame and the handle do not
  overlap; on separate buffers that copy writes the same bytes.
\<close>

fun palette_append :: "mem \<Rightarrow> mem \<Rightarrow> nat \<Rightarrow> u16 \<Rightarrow> nat \<Rightarrow> mem \<times> u16" where
  "palette_append paletteBuffer frameData src currentPaletteCount 0 = (paletteBuffer, currentPaletteCount)"
| "palette_append paletteBuffer frameData src currentPaletteCount (Suc remaining) =
     (let dst = unat currentPaletteCount * 3
      in palette_append
           (paletteBuffer(dst := frameData src, dst + 1 := frameData (src + 1), dst + 2 := frameData (src + 2)))
           frameData (src + 3) (currentPaletteCount + 1) remaining)"

text \<open>\<open>memcpy\<close> and the copy loops that fill a buffer from its start: \<open>n\<close> bytes of \<open>src\<close> from \<open>src_off\<close>.\<close>

definition copy_bytes :: "mem \<Rightarrow> mem \<Rightarrow> nat \<Rightarrow> nat \<Rightarrow> mem" where
  "copy_bytes dst src src_off n = (\<lambda>i. if i < n then src (src_off + i) else dst i)"

text \<open>
  The pixel loop: for each pixel read an index at the bit cursor, write the three bytes
  found at \<open>palette + (index & 0xffff) * 3\<close>, advance the cursor by the index width.
  No index is compared with the palette count.
\<close>

fun paint :: "mem \<Rightarrow> mem \<Rightarrow> nat \<Rightarrow> u8 \<Rightarrow> u32 \<Rightarrow> nat \<Rightarrow> u8 list" where
  "paint paletteBuffer frameData bitstreamOffset bitsPerIndex bitCursor 0 = []"
| "paint paletteBuffer frameData bitstreamOffset bitsPerIndex bitCursor (Suc remaining) =
     (let paletteIndex = read_index frameData bitstreamOffset bitCursor bitsPerIndex;
          entry = unat (paletteIndex AND 0xffff) * 3
      in paletteBuffer entry # paletteBuffer (entry + 1) # paletteBuffer (entry + 2) #
         paint paletteBuffer frameData bitstreamOffset bitsPerIndex (bitCursor + ucast bitsPerIndex) remaining)"

text \<open>
  \<open>divoom_image_decode_decode_one\<close>, 16 by 16, kinds 0 and 1. Kind 0 drops the
  palette and allocates a new one (the \<open>malloc\<close> is not tested; \<open>fresh n\<close> stands for the
  block that a request of \<open>n\<close> bytes returns); kind 1 appends to the palette and is
  refused when the entries do not fit the capacity. The table
  \<open>gdivoom_image_bits_table\<close> is not defined in the source and is a parameter here.
\<close>

definition divoom_image_decode_decode_one ::
  "(nat \<Rightarrow> u8) \<Rightarrow> (nat \<Rightarrow> mem) \<Rightarrow> decoder \<Rightarrow> mem option \<Rightarrow> failure + decoded" where
  "divoom_image_decode_decode_one bits_table fresh decoderState frameData =
     (case frameData of
        None \<Rightarrow> Inl (Err 0x1578)
      | Some frame \<Rightarrow>
          if frame 0 \<noteq> 0xAA then Inl (Err 0x157d)
          else if 1 < frame 5 then Inl (Err 0x1582)
          else
            let frameDelay = read_u16 frame 3 in
            if frame 5 = 0 then
              (let paletteEntryCounter = (if frame 6 \<noteq> 0 then ucast (frame 6) else 0x100 :: u32);
                   paletteIndex = (if 0xff < push_bit 1 paletteEntryCounter then 0x100
                                   else push_bit 1 paletteEntryCounter);
                   bitOffset = (if 0xf < paletteEntryCounter then paletteIndex else 0x40);
                   newPaletteBuffer =
                     copy_bytes (fresh (unat (bitOffset * 6))) frame 7 (unat paletteEntryCounter * 3);
                   bitstreamOffset = paletteEntryCounter * 3 + 7;
                   bitsPerIndex = bits_table (unat paletteEntryCounter)
               in Inr (decoderState\<lparr>pal_count := ucast paletteEntryCounter, pal_cap := ucast bitOffset,
                                      palette := Some newPaletteBuffer\<rparr>,
                       paint newPaletteBuffer frame (unat bitstreamOffset) bitsPerIndex 0 0x100,
                       bitstreamOffset + ucast bitsPerIndex * 0x20,
                       frameDelay))
            else
              (case palette decoderState of
                 None \<Rightarrow> Inl (Err 0x158e)
               | Some existingPaletteBuffer \<Rightarrow>
                   let newEntries = frame 6;
                       currentPaletteCount = pal_count decoderState
                   in if (ucast (pal_cap decoderState) :: u32) < ucast currentPaletteCount + ucast newEntries
                      then Inl (Err 0x1594)
                      else
                        let (paletteBuffer, paletteCount) =
                              palette_append existingPaletteBuffer frame 7 currentPaletteCount (unat newEntries);
                            bitstreamOffset = (ucast newEntries * 3 + 7 :: u32);
                            bitsPerIndex = bits_table (unat paletteCount)
                        in Inr (decoderState\<lparr>pal_count := paletteCount, palette := Some paletteBuffer\<rparr>,
                                paint paletteBuffer frame (unat bitstreamOffset) bitsPerIndex 0 0x100,
                                bitstreamOffset + ucast bitsPerIndex * 0x20,
                                frameDelay)))"

text \<open>
  The continuation branch, which \<open>decode_one_big\<close> (kind 4), \<open>decode_one_64\<close> (kinds
  \<open>0x0d\<close>, \<open>0x10\<close>) and \<open>decode_one_128\<close> (kind \<open>0x13\<close>) share word for word up to
  their diagnostic tags: when the capacity is below count plus new entries, allocate
  \<open>(count + new) * 6 + 0x600\<close> bytes, copy \<open>count * 3\<close> bytes over and store
  \<open>count + new + 0x100\<close> as capacity (a \<open>ushort\<close>), then append. \<open>None\<close> is the failed
  \<open>malloc\<close>.
\<close>

definition palette_extend ::
  "bool \<Rightarrow> (nat \<Rightarrow> mem) \<Rightarrow> decoder \<Rightarrow> mem \<Rightarrow> mem \<Rightarrow> (decoder \<times> mem) option" where
  "palette_extend alloc_ok fresh decoderState existingPaletteBuffer frame =
     (let newPaletteSize = read_u16 frame 6;
          currentPaletteCount = pal_count decoderState;
          totalPaletteSize = unat newPaletteSize + unat currentPaletteCount
      in if unat (pal_cap decoderState) < totalPaletteSize \<and> \<not> alloc_ok then None
         else
           let (paletteBufferPtr, capacity) =
                 (if unat (pal_cap decoderState) < totalPaletteSize
                  then (copy_bytes (fresh (totalPaletteSize * 6 + 0x600)) existingPaletteBuffer 0
                          (unat currentPaletteCount * 3),
                        currentPaletteCount + newPaletteSize + 0x100)
                  else (existingPaletteBuffer, pal_cap decoderState));
               (paletteBuffer, paletteCount) =
                 palette_append paletteBufferPtr frame 8 currentPaletteCount (unat newPaletteSize)
           in Some (decoderState\<lparr>pal_count := paletteCount, pal_cap := capacity,
                                   palette := Some paletteBuffer\<rparr>, paletteBuffer))"

text \<open>
  The reset branch of the same three functions copies the frame's entries to the start
  of the palette in three stages: sixteen entries at a time, then eight, then one entry
  at a time. The first two stages move \<open>undefined8\<close> values, 8 bytes each. One such
  move, from byte \<open>s\<close> of the frame to byte \<open>d\<close> of the palette:
\<close>

definition store8 :: "mem \<Rightarrow> nat \<Rightarrow> mem \<Rightarrow> nat \<Rightarrow> mem" where
  "store8 dst d src s = (\<lambda>i. if d \<le> i \<and> i < d + 8 then src (s + (i - d)) else dst i)"

text \<open>
  The stage of sixteen entries reads six values at \<open>paletteReadCursor + 0\<close>, \<open>8\<close>,
  \<open>0x10\<close>, \<open>0x18\<close>, \<open>0x20\<close>, \<open>0x28\<close>, a \<open>char *\<close>, and stores them at
  \<open>*(undefined8 *)(paletteWriteCursor + 0x18)\<close> and so on, where \<open>paletteWriteCursor\<close> is
  an \<open>undefined8 *\<close>: the listing adds the offset to the typed pointer, which counts in
  units of 8 bytes, so the six values land 64 bytes apart. The cursor then advances by
  \<open>step\<close> bytes: \<open>paletteWriteCursor + 0x30\<close>, that is \<open>0x180\<close> bytes, in
  \<open>decode_one_big\<close> and \<open>decode_one_64\<close>, and \<open>(char *)paletteWriteCursor + 0x30\<close> in
  \<open>decode_one_128\<close>.
\<close>

fun reset_chunks16 :: "nat \<Rightarrow> mem \<Rightarrow> mem \<Rightarrow> nat \<Rightarrow> nat \<Rightarrow> nat \<Rightarrow> mem" where
  "reset_chunks16 step paletteBuffer frame paletteWriteCursor paletteReadCursor 0 = paletteBuffer"
| "reset_chunks16 step paletteBuffer frame paletteWriteCursor paletteReadCursor (Suc rounds) =
     (let p1 = store8 paletteBuffer (paletteWriteCursor + 8 * 0x18) frame (paletteReadCursor + 0x18);
          p2 = store8 p1 (paletteWriteCursor + 8 * 0x10) frame (paletteReadCursor + 0x10);
          p3 = store8 p2 (paletteWriteCursor + 8 * 0x28) frame (paletteReadCursor + 0x28);
          p4 = store8 p3 (paletteWriteCursor + 8 * 0x20) frame (paletteReadCursor + 0x20);
          p5 = store8 p4 (paletteWriteCursor + 8 * 8) frame (paletteReadCursor + 8);
          p6 = store8 p5 paletteWriteCursor frame paletteReadCursor
      in reset_chunks16 step p6 frame (paletteWriteCursor + step) (paletteReadCursor + 0x30) rounds)"

text \<open>
  The stage of eight entries starts at byte \<open>paletteCopySize\<close> of the palette, reads
  three values at \<open>paletteDataStart + (paletteCopySize & 0xfffffff8)\<close> and stores them
  through the same typed pointer, at \<open>+ 0\<close>, \<open>+ 8\<close> and \<open>+ 0x10\<close> units of 8 bytes. Its
  counter runs from the entries done minus the entries to do up to 0 in steps of 8.
\<close>

fun reset_chunks8 :: "mem \<Rightarrow> mem \<Rightarrow> nat \<Rightarrow> nat \<Rightarrow> mem" where
  "reset_chunks8 paletteBuffer frame paletteCopySize 0 = paletteBuffer"
| "reset_chunks8 paletteBuffer frame paletteCopySize (Suc rounds) =
     (let paletteReadCursor = 8 + paletteCopySize div 8 * 8;
          p1 = store8 paletteBuffer (paletteCopySize + 8 * 0x10) frame (paletteReadCursor + 0x10);
          p2 = store8 p1 (paletteCopySize + 8 * 8) frame (paletteReadCursor + 8);
          p3 = store8 p2 paletteCopySize frame paletteReadCursor
      in reset_chunks8 p3 frame (paletteCopySize + 0x18) rounds)"

text \<open>The last stage copies three bytes per entry, from byte \<open>alignedPaletteSize\<close> on.\<close>

fun reset_bytes :: "mem \<Rightarrow> mem \<Rightarrow> nat \<Rightarrow> nat \<Rightarrow> mem" where
  "reset_bytes paletteBuffer frame alignedPaletteSize 0 = paletteBuffer"
| "reset_bytes paletteBuffer frame alignedPaletteSize (Suc remaining) =
     reset_bytes
       (paletteBuffer(alignedPaletteSize := frame (8 + alignedPaletteSize),
                      alignedPaletteSize + 1 := frame (8 + alignedPaletteSize + 1),
                      alignedPaletteSize + 2 := frame (8 + alignedPaletteSize + 2)))
       frame (alignedPaletteSize + 3) remaining"

text \<open>
  The three stages together. Fewer than 8 entries go through the last stage only, and
  so does every frame when the address ranges of the palette and of the frame's entries
  overlap; \<open>overlap\<close> is the outcome of that comparison of addresses, which the model
  does not have. The stage of sixteen runs for 16 entries and more, the stage of eight
  when bit 3 of the count is set.
\<close>

definition reset_entries :: "nat \<Rightarrow> bool \<Rightarrow> mem \<Rightarrow> mem \<Rightarrow> u16 \<Rightarrow> mem" where
  "reset_entries step overlap existingPaletteBuffer frame currentPaletteCount =
     (let paletteEntryCount = unat currentPaletteCount;
          aligned16 = unat (currentPaletteCount AND 0xfff0);
          aligned8 = unat (currentPaletteCount AND 0xfff8)
      in if paletteEntryCount = 0 then existingPaletteBuffer
         else if paletteEntryCount < 8 \<or> overlap
         then reset_bytes existingPaletteBuffer frame 0 paletteEntryCount
         else if paletteEntryCount < 0x10
         then (let p = reset_chunks8 existingPaletteBuffer frame 0 (aligned8 div 8)
               in if aligned8 = paletteEntryCount then p
                  else reset_bytes p frame (aligned8 * 3) (paletteEntryCount - aligned8))
         else
           (let wide = reset_chunks16 step existingPaletteBuffer frame 0 8 (aligned16 div 0x10)
            in if aligned16 = paletteEntryCount then wide
               else if drop_bit 3 currentPaletteCount AND 1 = 0
               then reset_bytes wide frame (aligned16 * 3) (paletteEntryCount - aligned16)
               else (let p = reset_chunks8 wide frame (aligned16 * 3) ((aligned8 - aligned16) div 8)
                     in if aligned8 = paletteEntryCount then p
                        else reset_bytes p frame (aligned8 * 3) (paletteEntryCount - aligned8))))"

text \<open>
  The reset branch: the count becomes the frame's entry count; the buffer is kept when
  the stored capacity equals the wanted one and is replaced otherwise, by a \<open>malloc\<close>
  of 6 bytes per entry of capacity that the source does not test; the entries are then
  copied as above.
\<close>

definition palette_reset ::
  "nat \<Rightarrow> bool \<Rightarrow> (nat \<Rightarrow> mem) \<Rightarrow> decoder \<Rightarrow> mem \<Rightarrow> u32 \<Rightarrow> decoder \<times> mem" where
  "palette_reset step overlap fresh decoderState frame paletteAllocSize =
     (let currentPaletteCount = read_u16 frame 6;
          (buffer, capacity) =
            (case palette decoderState of
               None \<Rightarrow> (fresh (unat paletteAllocSize * 6), ucast paletteAllocSize)
             | Some existingPaletteBuffer \<Rightarrow>
                 if ucast (pal_cap decoderState) \<noteq> paletteAllocSize
                 then (fresh (unat paletteAllocSize * 6), ucast paletteAllocSize)
                 else (existingPaletteBuffer, pal_cap decoderState));
          paletteBuffer = reset_entries step overlap buffer frame currentPaletteCount
      in (decoderState\<lparr>pal_count := currentPaletteCount, pal_cap := capacity,
                          palette := Some paletteBuffer\<rparr>, paletteBuffer))"

text \<open>
  The indexed body and the raw body of the three functions. The width of an index is
  the table entry at \<open>tableIndex\<close>; the offset of the bit stream is kept in a \<open>ushort\<close>.
  \<open>unit\<close> is the number of bytes one bit per pixel takes on the canvas.
\<close>

definition indexed_body :: "(nat \<Rightarrow> u8) \<Rightarrow> mem \<Rightarrow> mem \<Rightarrow> u16 \<Rightarrow> nat \<Rightarrow> nat \<Rightarrow> u32 \<Rightarrow> u8 list \<times> u32" where
  "indexed_body bits_table paletteBuffer frame entriesInFrame tableIndex pixels unit =
     (let bitstreamOffset = (ucast entriesInFrame * 3 + 8 :: u32);
          bitsPerIndex = bits_table tableIndex;
          bitstreamOffsetUshort = (ucast bitstreamOffset :: u16)
      in (paint paletteBuffer frame (unat bitstreamOffsetUshort) bitsPerIndex 0 pixels,
          ucast bitsPerIndex * unit + (bitstreamOffset AND 0xffff)))"

definition raw_body :: "mem \<Rightarrow> nat \<Rightarrow> u32 \<Rightarrow> u8 list \<times> u32" where
  "raw_body frame nbytes unit = (map (\<lambda>i. frame (8 + i)) [0..<nbytes], 0x18 * unit + (8 AND 0xffff))"

text \<open>
  \<open>divoom_image_decode_decode_one_big\<close>, 32 by 32: kind 4 continues the palette, kind 2
  is raw, the other kinds admitted (kind 3) reset the palette. The table is indexed
  with the count after the append on the continuation branch and with the frame's
  count on the reset branch.
\<close>

definition divoom_image_decode_decode_one_big ::
  "(nat \<Rightarrow> u8) \<Rightarrow> bool \<Rightarrow> (nat \<Rightarrow> mem) \<Rightarrow> bool \<Rightarrow> decoder \<Rightarrow> mem option \<Rightarrow> failure + decoded" where
  "divoom_image_decode_decode_one_big bits_table alloc_ok fresh overlap decoderState frameData =
     (case frameData of
        None \<Rightarrow> Inl (Err 0x14db)
      | Some frame \<Rightarrow>
          let frameFormatType = frame 5 in
          if frame 0 \<noteq> 0xAA then Inl (Err 0x14e0)
          else if frameFormatType AND 0x7e \<noteq> 2 \<and> frameFormatType AND 0x7f \<noteq> 4 then Inl (Err 0x14e6)
          else
            let frameDelay = read_u16 frame 3 in
            if frameFormatType AND 0x7f = 4 then
              (case palette decoderState of
                 None \<Rightarrow> Inl (Err 0x14fe)
               | Some existingPaletteBuffer \<Rightarrow>
                   (case palette_extend alloc_ok fresh decoderState existingPaletteBuffer frame of
                      None \<Rightarrow> Inl (Err 0x1509)
                    | Some (st, paletteBuffer) \<Rightarrow>
                        let (pixels, consumed) =
                              indexed_body bits_table paletteBuffer frame (read_u16 frame 6)
                                (unat (pal_count st)) 0x400 0x80
                        in Inr (st, pixels, consumed, frameDelay)))
            else if frameFormatType AND 0x7f = 2 then
              (let (pixels, consumed) = raw_body frame 0xc00 0x80
               in Inr (decoderState\<lparr>palette := None\<rparr>, pixels, consumed, frameDelay))
            else
              (let currentPaletteCount = read_u16 frame 6;
                   paletteAllocSize = (if 0x7f < currentPaletteCount then ucast currentPaletteCount + 0x100 else 0x100 :: u32);
                   (st, paletteBuffer) = palette_reset 0x180 overlap fresh decoderState frame paletteAllocSize;
                   (pixels, consumed) =
                     indexed_body bits_table paletteBuffer frame currentPaletteCount
                       (unat currentPaletteCount) 0x400 0x80
               in Inr (st, pixels, consumed, frameDelay)))"

text \<open>
  \<open>divoom_image_decode_decode_one_64\<close>, 64 by 64. On its reset branch the listing
  indexes the table with \<open>currentPaletteOffset\<close>, a local that this branch sets to 0
  when the frame has no entries and does not set otherwise: the value it holds then is
  not determined by the function and is a parameter here.
\<close>

definition divoom_image_decode_decode_one_64 ::
  "(nat \<Rightarrow> u8) \<Rightarrow> bool \<Rightarrow> (nat \<Rightarrow> mem) \<Rightarrow> bool \<Rightarrow> nat \<Rightarrow> decoder \<Rightarrow> mem option \<Rightarrow> failure + decoded" where
  "divoom_image_decode_decode_one_64 bits_table alloc_ok fresh overlap currentPaletteOffset decoderState frameData =
     (case frameData of
        None \<Rightarrow> Inl (Err 0x108d)
      | Some frame \<Rightarrow>
          let frameFormatType = frame 5 in
          if frame 0 \<noteq> 0xAA then Inl (Err 0x1092)
          else if (ucast (frameFormatType AND 0x7f) :: u32) - 0x11 < 0xfffffffa then Inl (Err 0x1099)
          else
            let frameDelay = read_u16 frame 3 in
            if frameFormatType \<in> {0xb, 0xe, 0x8b, 0x8e} then
              (let (pixels, consumed) = raw_body frame 0x3000 0x200
               in Inr (decoderState\<lparr>palette := None\<rparr>, pixels, consumed, frameDelay))
            else if frameFormatType \<in> {0xd, 0x10, 0x8d, 0x90} then
              (case palette decoderState of
                 None \<Rightarrow> Inl (Err 0x10ba)
               | Some existingPaletteBuffer \<Rightarrow>
                   (case palette_extend alloc_ok fresh decoderState existingPaletteBuffer frame of
                      None \<Rightarrow> Inl (Err 0x10c5)
                    | Some (st, paletteBuffer) \<Rightarrow>
                        let (pixels, consumed) =
                              indexed_body bits_table paletteBuffer frame (read_u16 frame 6)
                                (unat (pal_count st)) 0x1000 0x200
                        in Inr (st, pixels, consumed, frameDelay)))
            else
              (let currentPaletteCount = read_u16 frame 6;
                   paletteAllocSize = (if currentPaletteCount < 0x81 then 0x80 else ucast currentPaletteCount :: u32);
                   (st, paletteBuffer) = palette_reset 0x180 overlap fresh decoderState frame paletteAllocSize;
                   (pixels, consumed) =
                     indexed_body bits_table paletteBuffer frame currentPaletteCount
                       (if currentPaletteCount = 0 then 0 else currentPaletteOffset) 0x1000 0x200
               in Inr (st, pixels, consumed, frameDelay)))"

text \<open>\<open>divoom_image_decode_decode_one_128\<close>, 128 by 128.\<close>

definition divoom_image_decode_decode_one_128 ::
  "(nat \<Rightarrow> u8) \<Rightarrow> bool \<Rightarrow> (nat \<Rightarrow> mem) \<Rightarrow> bool \<Rightarrow> decoder \<Rightarrow> mem option \<Rightarrow> failure + decoded" where
  "divoom_image_decode_decode_one_128 bits_table alloc_ok fresh overlap decoderState frameData =
     (case frameData of
        None \<Rightarrow> Inl (Err 0x112c)
      | Some frame \<Rightarrow>
          let frameFormatType = frame 5 in
          if frame 0 \<noteq> 0xAA then Inl (Err 0x1131)
          else if frameFormatType AND 0x7d \<noteq> 0x11 \<and> frameFormatType AND 0x7f \<noteq> 0x14 then Inl (Err 0x1137)
          else
            let frameDelay = read_u16 frame 3 in
            if frameFormatType AND 0x7f = 0x13 then
              (case palette decoderState of
                 None \<Rightarrow> Inl (Err 0x1158)
               | Some existingPaletteBuffer \<Rightarrow>
                   (case palette_extend alloc_ok fresh decoderState existingPaletteBuffer frame of
                      None \<Rightarrow> Inl (Err 0x1163)
                    | Some (st, paletteBuffer) \<Rightarrow>
                        let (pixels, consumed) =
                              indexed_body bits_table paletteBuffer frame (read_u16 frame 6)
                                (unat (pal_count st)) 0x4000 0x800
                        in Inr (st, pixels, consumed, frameDelay)))
            else if frameFormatType AND 0x7f = 0x11 then
              (let (pixels, consumed) = raw_body frame 0xc000 0x800
               in Inr (decoderState\<lparr>palette := None\<rparr>, pixels, consumed, frameDelay))
            else
              (let currentPaletteCount = read_u16 frame 6;
                   paletteAllocSize = (if currentPaletteCount < 0x81 then 0x80 else ucast currentPaletteCount :: u32);
                   (st, paletteBuffer) = palette_reset 0x30 overlap fresh decoderState frame paletteAllocSize;
                   (pixels, consumed) =
                     indexed_body bits_table paletteBuffer frame currentPaletteCount
                       (unat currentPaletteCount) 0x4000 0x800
               in Inr (st, pixels, consumed, frameDelay)))"


text \<open>
  Modelled from the spec: the table \<open>gdivoom_image_bits_table\<close>, which the source
  indexes but does not define. The specification gives it as palette size to bits:
  0, 1 and 2 to 1, 3..4 to 2, 5..8 to 3, 9..16 to 4, 17..32 to 5, 33..64 to 6,
  65..128 to 7, 129..256 to 8. It is used for concrete runs only; every general
  statement below holds for any table.
\<close>

definition spec_bits_table :: "nat \<Rightarrow> u8" where
  "spec_bits_table n =
     (if n \<le> 2 then 1 else if n \<le> 4 then 2 else if n \<le> 8 then 3 else if n \<le> 16 then 4
      else if n \<le> 32 then 5 else if n \<le> 64 then 6 else if n \<le> 128 then 7 else 8)"

text \<open>
  What the claims say of a palette, for comparison with the decoders. Extending:
  \<open>n\<close> entries read at \<open>src\<close> in the frame follow the old entries, which are unchanged.
  Growing adds the capacity rule of the continuation branch and tells where the palette
  lives: behind its entries it is the block of \<open>(count + n) * 6 + 0x600\<close> bytes just
  allocated when the capacity was exceeded, and the old buffer otherwise. Resetting: the
  palette is the frame's entries. Looking up: every pixel is the palette entry at the
  index read for it.
\<close>

definition tail_from :: "nat \<Rightarrow> mem \<Rightarrow> mem" where
  "tail_from k buffer = (\<lambda>i. buffer (k + i))"

definition extends_palette :: "nat \<Rightarrow> decoder \<Rightarrow> mem \<Rightarrow> nat \<Rightarrow> decoder \<Rightarrow> bool" where
  "extends_palette src st frame n st' =
     (case (palette st, palette st') of
        (Some old, Some new) \<Rightarrow>
          let count = unat (pal_count st) in
          unat (pal_count st') = count + n \<and>
          map new [0..<3 * count] = map old [0..<3 * count] \<and>
          map new [3 * count..<3 * (count + n)] = map frame [src..<src + 3 * n]
      | _ \<Rightarrow> False)"

definition grows_palette :: "(nat \<Rightarrow> mem) \<Rightarrow> decoder \<Rightarrow> mem \<Rightarrow> decoder \<Rightarrow> bool" where
  "grows_palette fresh st frame st' =
     (let n = unat (read_u16 frame 6); count = unat (pal_count st) in
      extends_palette 8 st frame n st' \<and>
      unat (pal_cap st') = (if unat (pal_cap st) < count + n then count + n + 0x100 else unat (pal_cap st)) \<and>
      pal_count st' \<le> pal_cap st' \<and>
      map_option (tail_from (3 * (count + n))) (palette st') =
        (if unat (pal_cap st) < count + n
         then Some (tail_from (3 * (count + n)) (fresh ((count + n) * 6 + 0x600)))
         else map_option (tail_from (3 * (count + n))) (palette st)))"


definition looked_up :: "mem \<Rightarrow> mem \<Rightarrow> nat \<Rightarrow> u8 \<Rightarrow> nat \<Rightarrow> u8 list \<Rightarrow> bool" where
  "looked_up pal frame off bits npix px =
     (length px = 3 * npix \<and>
      (\<forall>p<npix. \<forall>b<3.
         px ! (3 * p + b) = pal (unat (read_index frame off (of_nat p * ucast bits) bits AND 0xffff) * 3 + b)))"

text \<open>Concrete handles and frames for evaluation.\<close>

definition handle_with_palette :: "u16 \<Rightarrow> u16 \<Rightarrow> u8 list \<Rightarrow> decoder" where
  "handle_with_palette count cap entries =
     \<lparr>pal_count = count, pal_cap = cap, in_len = 0, in_total = 0, cursor = 0,
      input = stream_of [], owned_input = None, palette = Some (stream_of entries)\<rparr>"

definition three_colour_frame :: "u8 list" where
  "three_colour_frame =
     [0xAA, 0x50, 0, 0x64, 0, 0, 3, 1, 2, 3, 4, 5, 6, 7, 8, 9] @ 3 # replicate 63 0"


section \<open>The 11x11 picture codec\<close>

text \<open>
  \<open>divoom_pic_encode\<close> and \<open>divoom_pic_decode\<close> work on a frame of 121 pixels of three
  4-bit channels, packed two pixels to three bytes (182 bytes). Every buffer is the array
  the source has: the frame, the 121 palette indices, the palette, and the encoded buffer
  of \<open>bodyOffset + 0x16b\<close> zeroed bytes that \<open>malloc\<close> and \<open>memset\<close> provide.

  The channels of pixel \<open>pixelIndex\<close>, as both functions read them: the pixel starts at
  byte \<open>(pixelIndex >> 1) + pixelIndex\<close>, on the low nibble when \<open>pixelIndex\<close> is even.
\<close>

type_synonym rgb = "u8 \<times> u8 \<times> u8"

definition pixel_at :: "u8 list \<Rightarrow> nat \<Rightarrow> rgb" where
  "pixel_at inputImage pixelIndex =
     (let off = pixelIndex div 2 + pixelIndex;
          b0 = inputImage ! off; b1 = inputImage ! (off + 1)
      in if even pixelIndex then (b0 AND 0xf, drop_bit 4 b0, b1 AND 0xf)
         else (drop_bit 4 b0, b1 AND 0xf, drop_bit 4 b1))"

text \<open>
  The first loop of \<open>divoom_pic_encode\<close>: each pixel's colour is searched in the palette
  built so far and appended when it is new; the index found is stored for the pixel.
\<close>

fun find_colour :: "rgb list \<Rightarrow> rgb \<Rightarrow> nat \<Rightarrow> nat option" where
  "find_colour [] colour paletteIndex = None"
| "find_colour (entry # rest) colour paletteIndex =
     (if entry = colour then Some paletteIndex else find_colour rest colour (Suc paletteIndex))"

fun build_palette :: "u8 list \<Rightarrow> nat \<Rightarrow> nat \<Rightarrow> rgb list \<Rightarrow> u8 list \<Rightarrow> rgb list \<times> u8 list" where
  "build_palette inputImage pixelIndex 0 paletteBuffer pixelColorIndices = (paletteBuffer, pixelColorIndices)"
| "build_palette inputImage pixelIndex (Suc remaining) paletteBuffer pixelColorIndices =
     (let colour = pixel_at inputImage pixelIndex
      in case find_colour paletteBuffer colour 0 of
           Some paletteIndex \<Rightarrow>
             build_palette inputImage (Suc pixelIndex) remaining paletteBuffer
               (pixelColorIndices @ [of_nat paletteIndex])
         | None \<Rightarrow>
             build_palette inputImage (Suc pixelIndex) remaining (paletteBuffer @ [colour])
               (pixelColorIndices @ [of_nat (length paletteBuffer)]))"

text \<open>
  The palette goes to the encoded buffer from byte 2 on, two entries to three bytes
  (\<open>LAB_0024a448\<close>); a two-colour frame gets a body of one bit per pixel.
\<close>

definition put_entry :: "u8 list \<Rightarrow> nat \<Rightarrow> rgb \<Rightarrow> u8 list" where
  "put_entry encodedData paletteSize entry =
     (case entry of (r, g, b) \<Rightarrow>
        let at = paletteSize + paletteSize div 2 + 2
        in if even paletteSize
           then encodedData[at := r OR push_bit 4 g,
                            at + 1 := b OR (encodedData ! (at + 1) AND 0xf0)]
           else encodedData[at := (encodedData ! at AND 0xf) OR push_bit 4 r,
                            at + 1 := g OR push_bit 4 b])"

fun emit_palette :: "u8 list \<Rightarrow> rgb list \<Rightarrow> nat \<Rightarrow> u8 list" where
  "emit_palette encodedData [] paletteSize = encodedData"
| "emit_palette encodedData (entry # rest) paletteSize =
     emit_palette (put_entry encodedData paletteSize entry) rest (Suc paletteSize)"

fun emit_bitmap :: "u8 list \<Rightarrow> u8 list \<Rightarrow> nat \<Rightarrow> nat \<Rightarrow> nat \<Rightarrow> u8 list" where
  "emit_bitmap encodedData pixelColorIndices bodyOffset p 0 = encodedData"
| "emit_bitmap encodedData pixelColorIndices bodyOffset p (Suc remaining) =
     (let at = p div 8 + bodyOffset
      in emit_bitmap
           (encodedData[at := encodedData ! at OR push_bit (p mod 8) (pixelColorIndices ! p)])
           pixelColorIndices bodyOffset (Suc p) remaining)"

text \<open>
  The run-length loops. A run is counted by comparing the pixel at \<open>paletteSize\<close> with its
  successors, at most \<open>runLength + 1\<close> of them, where \<open>runLength\<close> is \<open>0x77 - paletteSize\<close>
  clamped to \<open>0xd\<close>. The position of the next run is then computed from that same
  \<open>runLength\<close>: \<open>runLength = runLength + k\<close>, \<open>runLength = runLength + 1 & 0xffff\<close>,
  \<open>paletteSize = runLength\<close>. The loops end when the position reaches \<open>0x79\<close>; nothing in
  them bounds the number of rounds, so they are partial functions.
\<close>

fun count_run :: "u8 list \<Rightarrow> nat \<Rightarrow> nat \<Rightarrow> nat \<Rightarrow> nat" where
  "count_run pixelColorIndices pos k 0 = k"
| "count_run pixelColorIndices pos k (Suc remaining) =
     (if pixelColorIndices ! pos \<noteq> pixelColorIndices ! (k + pos + 1) then k
      else count_run pixelColorIndices pos (Suc k) remaining)"

definition next_run :: "u8 list \<Rightarrow> u32 \<Rightarrow> u32 \<times> nat" where
  "next_run pixelColorIndices paletteSize =
     (if paletteSize < 0x78
      then let runLength = (if 0xc < 0x77 - paletteSize then 0xd else 0x77 - paletteSize);
               k = count_run pixelColorIndices (unat paletteSize) 0 (unat runLength + 1)
           in ((runLength + of_nat k + 1) AND 0xffff, k + 1)
      else ((paletteSize + 1) AND 0xffff, 1))"

partial_function (option) rle_pairs :: "u8 list \<Rightarrow> nat \<Rightarrow> u8 list \<Rightarrow> u32 \<Rightarrow> u16 \<Rightarrow> (u8 list \<times> u16) option" where
  "rle_pairs pixelColorIndices bodyOffset encodedData paletteSize dataOffset =
     (case next_run pixelColorIndices paletteSize of (runLength, run) \<Rightarrow>
        let encodedData1 = encodedData
              [bodyOffset + unat dataOffset := pixelColorIndices ! unat paletteSize,
               bodyOffset + unat (dataOffset OR 1) := of_nat run]
        in if runLength < 0x79
           then rle_pairs pixelColorIndices bodyOffset encodedData1 runLength (dataOffset + 2)
           else Some (encodedData1, dataOffset + 2))"

partial_function (option) rle_nibbles :: "u8 list \<Rightarrow> nat \<Rightarrow> u8 list \<Rightarrow> u32 \<Rightarrow> u16 \<Rightarrow> (u8 list \<times> u16) option" where
  "rle_nibbles pixelColorIndices bodyOffset encodedData paletteSize dataOffset =
     (case next_run pixelColorIndices paletteSize of (runLength, run) \<Rightarrow>
        let encodedData1 = encodedData
              [bodyOffset + unat dataOffset :=
                 pixelColorIndices ! unat paletteSize OR push_bit 4 (of_nat run)]
        in if runLength < 0x79
           then rle_nibbles pixelColorIndices bodyOffset encodedData1 runLength (dataOffset + 1)
           else Some (encodedData1, dataOffset + 1))"

declare rle_pairs.simps [code]
declare rle_nibbles.simps [code]

text \<open>
  After a run-length body that is too long the source rewrites the body with the plain
  indices, 8 bytes at a time: one byte per pixel (mode 3), or two pixels per byte (mode 1),
  where the last byte takes its high nibble from \<open>local_1cb\<close>, the stack byte behind the
  index array.
\<close>

definition raw_indices :: "u8 list \<Rightarrow> nat \<Rightarrow> u8 list \<Rightarrow> u8 list" where
  "raw_indices pixelColorIndices bodyOffset encodedData =
     take bodyOffset encodedData @ take 0x79 pixelColorIndices @ drop (bodyOffset + 0x79) encodedData"

definition nibble_indices :: "u8 \<Rightarrow> u8 list \<Rightarrow> nat \<Rightarrow> u8 list \<Rightarrow> u8 list" where
  "nibble_indices local_1cb pixelColorIndices bodyOffset encodedData =
     take bodyOffset encodedData @
     map (\<lambda>j. pixelColorIndices ! (2 * j) OR push_bit 4 (pixelColorIndices ! (2 * j + 1))) [0..<0x3c] @
     [pixelColorIndices ! 0x78 OR push_bit 4 local_1cb] @
     drop (bodyOffset + 0x3d) encodedData"

definition encode_nibbles :: "u8 \<Rightarrow> u8 list \<Rightarrow> nat \<Rightarrow> u8 list \<Rightarrow> (u8 list \<times> u16) option" where
  "encode_nibbles local_1cb pixelColorIndices pixelIndex encodedData =
     (case rle_nibbles pixelColorIndices pixelIndex encodedData 0 0 of
        None \<Rightarrow> None
      | Some (encodedData1, dataOffset) \<Rightarrow>
          if dataOffset < 0xb7 then Some (encodedData1, dataOffset)
          else Some ((nibble_indices local_1cb pixelColorIndices pixelIndex encodedData1)[0 := 1], 0xb6))"

definition encode_pairs :: "u8 list \<Rightarrow> nat \<Rightarrow> u8 list \<Rightarrow> (u8 list \<times> u16) option" where
  "encode_pairs pixelColorIndices pixelIndex encodedData =
     (case rle_pairs pixelColorIndices pixelIndex encodedData 0 0 of
        None \<Rightarrow> None
      | Some (encodedData1, dataOffset) \<Rightarrow>
          if dataOffset < 0x7a then Some (encodedData1, dataOffset)
          else Some ((raw_indices pixelColorIndices pixelIndex encodedData1)[0 := 3], 0x79))"

text \<open>
  \<open>divoom_pic_encode\<close>. \<open>paletteOffset\<close> first holds the number of colours and is then
  overwritten with the offset of the body, \<open>((3 * n + 1) >> 1) + 2\<close>; the tests that choose
  modes 4 and 5 come after that assignment and read \<open>paletteOffset\<close>, as written here.
  The result is the buffer and \<open>*outputSize\<close>; \<open>None\<close> when a run-length loop does not end.
\<close>

definition encode_body :: "u8 \<Rightarrow> rgb list \<Rightarrow> u8 list \<Rightarrow> u32 \<Rightarrow> nat \<Rightarrow> u8 list \<Rightarrow> (u8 list \<times> u16) option" where
  "encode_body local_1cb paletteBuffer pixelColorIndices totalPaletteSize pixelIndex encodedData0 =
     (let encodedData = emit_palette encodedData0 paletteBuffer 0
      in if totalPaletteSize AND 0xffff = 1 then Some (encodedData, 0)
         else if totalPaletteSize AND 0xffff = 2
         then Some (emit_bitmap encodedData pixelColorIndices pixelIndex 0 0x79, 0x10)
         else if totalPaletteSize AND 0xffff < 0x11
         then encode_nibbles local_1cb pixelColorIndices pixelIndex encodedData
         else encode_pairs pixelColorIndices pixelIndex encodedData)"

definition divoom_pic_encode :: "u8 \<Rightarrow> u8 list \<Rightarrow> (u8 list \<times> u16) option" where
  "divoom_pic_encode local_1cb inputImage =
     (case build_palette inputImage 0 0x79 [] [] of (paletteBuffer, pixelColorIndices) \<Rightarrow>
      let colorIndex = (of_nat (length paletteBuffer) :: u32);
          totalPaletteSize = colorIndex;
          paletteOffset = drop_bit 1 ((totalPaletteSize AND 0xffff) + (colorIndex AND 0xffff) * 2 + 1) + 2;
          pixelIndex = unat (paletteOffset AND 0xffff);
          sizeValue = (ucast paletteOffset :: u16);
          encodedData = replicate (pixelIndex + 0x16b) 0;
          body = encode_body local_1cb paletteBuffer pixelColorIndices totalPaletteSize pixelIndex
      in map_option (\<lambda>(encodedData1, dataOffset). (encodedData1, dataOffset + sizeValue))
           (if paletteOffset = 1 then body (encodedData[0 := 4, 1 := ucast colorIndex])
            else if paletteOffset = 2 then body (encodedData[0 := 5, 1 := ucast colorIndex])
            else if 0x10 < totalPaletteSize AND 0xffff
            then body (encodedData[0 := 2, 1 := ucast colorIndex])
            else if colorIndex AND 0xffff \<noteq> 0
            then body (encodedData[0 := 0, 1 := ucast colorIndex])
            else encode_nibbles local_1cb pixelColorIndices pixelIndex
                   (encodedData[0 := 0, 1 := ucast colorIndex])))"

text \<open>
  \<open>divoom_pic_decode\<close> writes a pixel by storing its three channels over the nibbles of the
  output frame; the same statements appear in every mode of the \<open>switch\<close>.
\<close>

definition put_pixel :: "u8 list \<Rightarrow> u8 list \<Rightarrow> nat \<Rightarrow> nat \<Rightarrow> u8 list" where
  "put_pixel paletteBuffer outputBuffer paletteIndex currentPixelIndex =
     (let targetByte = currentPixelIndex div 2 + currentPixelIndex
      in if even currentPixelIndex
         then outputBuffer
                [targetByte := paletteBuffer ! paletteIndex OR push_bit 4 (paletteBuffer ! (paletteIndex + 1)),
                 targetByte + 1 := paletteBuffer ! (paletteIndex + 2) OR (outputBuffer ! (targetByte + 1) AND 0xf0)]
         else outputBuffer
                [targetByte := (outputBuffer ! targetByte AND 0xf) OR push_bit 4 (paletteBuffer ! paletteIndex),
                 targetByte + 1 := paletteBuffer ! (paletteIndex + 1) OR push_bit 4 (paletteBuffer ! (paletteIndex + 2))])"

fun put_run :: "u8 list \<Rightarrow> u8 list \<Rightarrow> nat \<Rightarrow> u16 \<Rightarrow> nat \<Rightarrow> u8 list" where
  "put_run paletteBuffer outputBuffer paletteIndex currentPixelIndex 0 = outputBuffer"
| "put_run paletteBuffer outputBuffer paletteIndex currentPixelIndex (Suc runLength) =
     put_run paletteBuffer
       (put_pixel paletteBuffer outputBuffer paletteIndex (unat currentPixelIndex))
       paletteIndex (currentPixelIndex + 1) runLength"

text \<open>
  The palette is unpacked from byte 2 of the encoded buffer into \<open>paletteBuffer\<close>, a stack
  array whose other bytes keep what the stack held. The entry index is below 256, so the
  masks \<open>0xfffe\<close> and \<open>0xffff\<close> of the source change nothing.
\<close>

fun load_palette :: "u8 list \<Rightarrow> u8 list \<Rightarrow> nat \<Rightarrow> nat \<Rightarrow> u8 list" where
  "load_palette encodedData paletteBuffer paletteColorIndex 0 = paletteBuffer"
| "load_palette encodedData paletteBuffer paletteColorIndex (Suc remaining) =
     (let packedDataOffset = paletteColorIndex + paletteColorIndex div 2;
          b = encodedData ! (packedDataOffset + 2);
          c = encodedData ! (packedDataOffset + 3)
      in load_palette encodedData
           (if even paletteColorIndex
            then paletteBuffer[3 * paletteColorIndex := b AND 0xf,
                               3 * paletteColorIndex + 1 := drop_bit 4 b,
                               3 * paletteColorIndex + 2 := c AND 0xf]
            else paletteBuffer[3 * paletteColorIndex := drop_bit 4 b,
                               3 * paletteColorIndex + 1 := c AND 0xf,
                               3 * paletteColorIndex + 2 := drop_bit 4 c])
           (Suc paletteColorIndex) remaining)"

text \<open>
  Modes 0 and 2 read runs until 121 pixels are covered: a byte \<open>run << 4 | index\<close> in mode 0
  (a byte below \<open>0x10\<close> covers nothing), a pair (index, run) in mode 2. The read offset is
  masked with \<open>0xffff\<close>, the pixel counter is a \<open>ushort\<close>.
\<close>

partial_function (option) decode_nibble_runs :: "u8 list \<Rightarrow> u8 list \<Rightarrow> u8 list \<Rightarrow> u32 \<Rightarrow> u16 \<Rightarrow> u8 list option" where
  "decode_nibble_runs encodedData paletteBuffer outputBuffer paletteColorIndex pixelIndex =
     (let paletteSize = encodedData ! unat (paletteColorIndex AND 0xffff);
          outputBuffer1 =
            (if 0xf < paletteSize
             then put_run paletteBuffer outputBuffer (unat (paletteSize AND 0xf) * 3) pixelIndex
                    (if drop_bit 4 paletteSize < 2 then 1 else unat (drop_bit 4 paletteSize))
             else outputBuffer);
          pixelIndex1 = pixelIndex + ucast (drop_bit 4 paletteSize)
      in if pixelIndex1 < 0x79
         then decode_nibble_runs encodedData paletteBuffer outputBuffer1 (paletteColorIndex + 1) pixelIndex1
         else Some outputBuffer1)"

partial_function (option) decode_pair_runs :: "u8 list \<Rightarrow> u8 list \<Rightarrow> u8 list \<Rightarrow> u32 \<Rightarrow> u16 \<Rightarrow> u8 list option" where
  "decode_pair_runs encodedData paletteBuffer outputBuffer paletteColorIndex pixelIndex =
     (let paletteSize = encodedData ! unat ((paletteColorIndex + 1) AND 0xffff);
          outputBuffer1 =
            (if paletteSize \<noteq> 0
             then put_run paletteBuffer outputBuffer
                    (unat (encodedData ! unat (paletteColorIndex AND 0xffff)) * 3) pixelIndex
                    (unat paletteSize)
             else outputBuffer);
          pixelIndex1 = pixelIndex + ucast paletteSize
      in if pixelIndex1 < 0x79
         then decode_pair_runs encodedData paletteBuffer outputBuffer1 (paletteColorIndex + 2) pixelIndex1
         else Some outputBuffer1)"

declare decode_nibble_runs.simps [code]
declare decode_pair_runs.simps [code]

text \<open>
  The other modes write all 121 pixels, each from an index read at a fixed place: a nibble
  (mode 1), a byte (\<open>default\<close>), entry 0 (mode 4), or one bit (mode 5).
\<close>

fun decode_each :: "(nat \<Rightarrow> nat) \<Rightarrow> u8 list \<Rightarrow> u8 list \<Rightarrow> nat \<Rightarrow> nat \<Rightarrow> u8 list" where
  "decode_each index_of paletteBuffer outputBuffer pixelIndex 0 = outputBuffer"
| "decode_each index_of paletteBuffer outputBuffer pixelIndex (Suc remaining) =
     decode_each index_of paletteBuffer
       (put_pixel paletteBuffer outputBuffer (index_of pixelIndex * 3) pixelIndex)
       (Suc pixelIndex) remaining"

definition divoom_pic_decode :: "u8 list \<Rightarrow> u8 list \<Rightarrow> u8 list \<Rightarrow> u8 list option" where
  "divoom_pic_decode stack outputBuffer encodedData =
     (let paletteSize = encodedData ! 1;
          decodeMode = encodedData ! 0;
          paletteBuffer = load_palette encodedData stack 0 (unat paletteSize);
          paletteColorIndex = (unat paletteSize * 3 + 1) div 2 + 2
      in if decodeMode = 0
         then decode_nibble_runs encodedData paletteBuffer outputBuffer (of_nat paletteColorIndex) 0
         else if decodeMode = 1
         then Some (decode_each
                (\<lambda>pixelIndex. let b = encodedData ! (pixelIndex div 2 + paletteColorIndex)
                              in if even pixelIndex then unat (b AND 0xf) else unat (drop_bit 4 b))
                paletteBuffer outputBuffer 0 0x79)
         else if decodeMode = 2
         then decode_pair_runs encodedData paletteBuffer outputBuffer (of_nat paletteColorIndex) 0
         else if decodeMode = 4
         then Some (decode_each (\<lambda>pixelIndex. 0) paletteBuffer outputBuffer 0 0x79)
         else if decodeMode = 5
         then Some (decode_each
                (\<lambda>pixelIndex. unat (drop_bit (pixelIndex mod 8)
                                       (encodedData ! (pixelIndex div 8 + paletteColorIndex)) AND 1))
                paletteBuffer outputBuffer 0 0x79)
         else Some (decode_each (\<lambda>pixelIndex. unat (encodedData ! (pixelIndex + paletteColorIndex)))
                paletteBuffer outputBuffer 0 0x79))"

text \<open>Frames for evaluation: one colour; two colours, \<open>000\<close> and \<open>FFF\<close>.\<close>

definition one_colour_image :: "u8 list" where
  "one_colour_image = replicate 182 0"

definition two_colour_image :: "u8 list" where
  "two_colour_image =
     concat (replicate 8 [0, 0, 0, 0, 0, 0, 0xFF, 0xFF, 0xFF, 0xFF, 0xFF, 0xFF]) @
     [0, 0, 0, 0, 0, 0, 0xFF, 0x0F, 0, 0, 0, 0] @ replicate 74 0"

section \<open>Properties of the bit reader\<close>

lemma two_byte_hi: "k \<le> 8 \<Longrightarrow>
   drop_bit k (push_bit k (ucast (y::u8) :: u32) AND 0xff) = ucast (y AND mask (8 - k))"
proof -
  assume k: "k \<le> 8"
  have ff: "(0xff::u32) = mask 8" by (simp add: mask_eq_exp_minus_1)
  show ?thesis unfolding ff
    by (rule bit_word_eqI) (use k in \<open>auto simp: bit_simps\<close>)
qed

lemma one_byte: "b + w \<le> 8 \<Longrightarrow>
   drop_bit (8 - (b + w) + b) (push_bit (8 - (b + w)) (ucast (x::u8) :: u32) AND 0xff) = ucast (drop_bit b x AND mask w)"
proof -
  assume k: "b + w \<le> 8"
  have ff: "(0xff::u32) = mask 8" by (simp add: mask_eq_exp_minus_1)
  show ?thesis unfolding ff
    by (rule bit_word_eqI) (use k in \<open>auto simp: bit_simps ac_simps\<close>)
qed

lemma and7: "(of_nat n :: u32) AND 7 = of_nat (n mod 8)"
proof -
  have "(7::u32) = mask 3" by (simp add: mask_eq_exp_minus_1)
  then have "(of_nat n :: u32) AND 7 = take_bit 3 (of_nat n)"
    by (simp only: take_bit_eq_mask)
  also have "\<dots> = of_nat (take_bit 3 n)" by (simp only: take_bit_of_nat)
  also have "take_bit 3 n = n mod 8" by (simp add: take_bit_eq_mod)
  finally show ?thesis .
qed

lemma sint_small: "n < 2 ^ 31 \<Longrightarrow> sint (of_nat n :: u32) = int n"
  by (simp add: signed_of_nat signed_take_bit_int_eq_self)

lemma unat_small: "n < 40 \<Longrightarrow> unat (of_nat n :: u32) = n"
  by (simp add: unat_of_nat)

lemma small_sub: "a \<le> c \<Longrightarrow> c < 40 \<Longrightarrow> (of_nat c :: u32) - of_nat a = of_nat (c - a)"
  by simp

lemma and1f: "n < 32 \<Longrightarrow> (of_nat n :: u32) AND 0x1f = of_nat n"
proof -
  assume n: "n < 32"
  have "(0x1f::u32) = mask 5" by (simp add: mask_eq_exp_minus_1)
  then have "(of_nat n :: u32) AND 0x1f = take_bit 5 (of_nat n)"
    by (simp only: take_bit_eq_mask)
  also have "\<dots> = of_nat (take_bit 5 n)" by (simp only: take_bit_of_nat)
  also have "take_bit 5 n = n" using n by (simp add: take_bit_eq_mod)
  finally show ?thesis .
qed

lemma ladder_one:
  assumes t: "t = b + w" and le: "t \<le> 8"
  shows "shr32 (shl32 (ucast (x::u8)) ((8 - of_nat t) AND 0x1f) AND 0xff)
               (((8 - of_nat t) + of_nat b) AND 0x1f) = ucast (drop_bit b x AND mask w)"
proof -
  have b: "b \<le> 8" using t le by simp
  have s1: "(8 :: u32) - of_nat t = of_nat (8 - t)"
    using small_sub [of t 8] le by simp
  have s2: "(of_nat (8 - t) :: u32) + of_nat b = of_nat (8 - t + b)" by simp
  have a1: "(of_nat (8 - t) :: u32) AND 0x1f = of_nat (8 - t)" by (rule and1f) simp
  have a2: "(of_nat (8 - t + b) :: u32) AND 0x1f = of_nat (8 - t + b)"
    using b by (intro and1f) simp
  have u1: "unat (of_nat (8 - t) :: u32) = 8 - t" by (rule unat_small) simp
  have u2: "unat (of_nat (8 - t + b) :: u32) = 8 - t + b" using b by (intro unat_small) simp
  show ?thesis
    unfolding shl32_def shr32_def s1 s2 a1 a2 u1 u2
    using one_byte [of b w x] le by (simp add: t)
qed

lemma ladder_two:
  assumes t: "t = b + w" and b: "b < 8" and w: "w \<le> 8" and lt: "8 < t"
  shows "shl32 (shr32 (shl32 (ucast (y::u8)) ((0x10 - of_nat t) AND 0x1f) AND 0xff)
                      ((0x10 - of_nat t) AND 0x1f))
               ((8 - of_nat b) AND 0x1f)
         OR ucast (drop_bit b (x::u8))
         = ucast (drop_bit b x) OR push_bit (8 - b) (ucast (y AND mask (w - (8 - b))))"
proof -
  have t16: "t \<le> 16" using t b w by simp
  have s1: "(0x10 :: u32) - of_nat t = of_nat (16 - t)"
    using small_sub [of t 16] t16 by simp
  have s2: "(8 :: u32) - of_nat b = of_nat (8 - b)"
    using small_sub [of b 8] b by simp
  have a1: "(of_nat (16 - t) :: u32) AND 0x1f = of_nat (16 - t)" by (rule and1f) simp
  have a2: "(of_nat (8 - b) :: u32) AND 0x1f = of_nat (8 - b)" by (rule and1f) simp
  have u1: "unat (of_nat (16 - t) :: u32) = 16 - t" by (rule unat_small) simp
  have u2: "unat (of_nat (8 - b) :: u32) = 8 - b" by (rule unat_small) simp
  have k: "8 - (16 - t) = w - (8 - b)" using lt b w by (simp add: t)
  have hi: "drop_bit (16 - t) (push_bit (16 - t) (ucast y :: u32) AND 0xff)
               = ucast (y AND mask (w - (8 - b)))"
    using two_byte_hi [of "16 - t" y] lt by (simp add: k)
  show ?thesis
    unfolding shl32_def shr32_def s1 s2 a1 a2 u1 u2 hi
    by (simp add: or.commute)
qed

lemma ucast_width: "w \<le> 8 \<Longrightarrow> (ucast (of_nat w :: u8) :: u32) = of_nat w"
  by (simp add: unsigned_of_nat take_bit_eq_mod)

lemma word_gt8: "t \<le> 16 \<Longrightarrow> (8 < (of_nat t :: u32)) = (8 < t)"
  by (simp add: word_less_nat_alt unat_small)

lemma word_lt9: "t \<le> 16 \<Longrightarrow> ((of_nat t :: u32) < 9) = (t < 9)"
  by (simp add: word_less_nat_alt unat_small)

lemma sint_sdrop3: "n < 2 ^ 31 \<Longrightarrow> sint (signed_drop_bit 3 (of_nat n :: u32)) = int (n div 8)"
proof -
  assume n: "n < 2 ^ 31"
  have "sint (signed_drop_bit 3 (of_nat n :: u32)) = drop_bit 3 (sint (of_nat n :: u32))"
    by (rule sint_signed_drop_bit_eq)
  also have "\<dots> = int n div 8" by (simp add: sint_small [OF n] drop_bit_eq_div)
  finally show ?thesis by (simp add: zdiv_int [symmetric] del: of_nat_div)
qed

lemma get_dot_info_ex_eq:
  assumes b: "b < 8" and w8: "w \<le> 8" and i: "8 * i + b < 2 ^ 31"
  shows "divoom_image_get_dot_info_ex m (of_nat (8 * i + b)) (of_nat w) = bitfield_spec (array_at m) i b w"
proof -
  define n where "n = 8 * i + b"
  define t where "t = b + w"
  have nd: "n div 8 = i" and nm: "n mod 8 = b" and n31: "n < 2 ^ 31"
    using b i by (simp_all add: n_def)
  have t16: "t \<le> 16" using b w8 by (simp add: t_def)
  have idx: "sint (signed_drop_bit 3 (of_nat n :: u32)) = int i"
    unfolding sint_sdrop3 [OF n31] nd ..
  have off: "(of_nat n :: u32) AND 7 = of_nat b" unfolding and7 nm ..
  have tot: "(of_nat b :: u32) + of_nat w = of_nat t" by (simp add: t_def)
  have ub: "unat (of_nat b :: u32) = b" using b by (simp add: unat_small)
  show ?thesis
  proof (cases "t \<le> 8")
    case True
    then have c: "\<not> 8 < t" by simp
    show ?thesis
      unfolding n_def [symmetric] divoom_image_get_dot_info_ex_def Let_def idx off
        ucast_width [OF w8] tot word_gt8 [OF t16] bitfield_spec_def
      using True c ladder_one [OF t_def True, of "m (int i)"] by (simp add: t_def array_at_def)
  next
    case False
    then have lt: "8 < t" by simp
    show ?thesis
      unfolding n_def [symmetric] divoom_image_get_dot_info_ex_def Let_def idx off
        ucast_width [OF w8] tot word_gt8 [OF t16] bitfield_spec_def ub
      using lt ladder_two [OF t_def b w8 lt, of "m (int i + 1)" "m (int i)"]
      by (simp add: t_def array_at_def add.commute)
  qed
qed

lemma and_ff_small: "w \<le> 8 \<Longrightarrow> (of_nat w :: u32) AND 0xff = of_nat w"
proof -
  assume w: "w \<le> 8"
  have "(0xff::u32) = mask 8" by (simp add: mask_eq_exp_minus_1)
  then have "(of_nat w :: u32) AND 0xff = take_bit 8 (of_nat w)"
    by (simp only: take_bit_eq_mask)
  also have "\<dots> = of_nat (take_bit 8 w)" by (simp only: take_bit_of_nat)
  also have "take_bit 8 w = w" using w by (simp add: take_bit_eq_mod)
  finally show ?thesis .
qed

lemma get_dot_info_eq:
  assumes w8: "w \<le> 8" and i: "w * idx < 2 ^ 31"
  shows "divoom_image_get_dot_info m (of_nat idx) (of_nat w) =
           bitfield_spec (array_at m) ((w * idx) div 8) ((w * idx) mod 8) w"
proof -
  define n where "n = w * idx"
  define b where "b = n mod 8"
  define t where "t = b + w"
  have b: "b < 8" by (simp add: b_def)
  have n31: "n < 2 ^ 31" using i by (simp add: n_def)
  have t16: "t \<le> 16" using b w8 by (simp add: t_def)
  have prod: "(of_nat w :: u32) * of_nat idx = of_nat n" by (simp add: n_def)
  have off: "(of_nat n :: u32) AND 7 = of_nat b" unfolding and7 b_def ..
  have tot: "(of_nat b :: u32) + of_nat w = of_nat t" by (simp add: t_def)
  have ub: "unat (of_nat b :: u32) = b" using b by (simp add: unat_small)
  have nw: "\<not> 8 < (of_nat w :: u32)" using w8 by (simp add: word_less_nat_alt unat_small)
  show ?thesis
  proof (cases "t \<le> 8")
    case True
    then have c: "\<not> 8 < t" by simp
    show ?thesis
      unfolding divoom_image_get_dot_info_def Let_def and_ff_small [OF w8] prod
        sint_sdrop3 [OF n31] off tot word_gt8 [OF t16] bitfield_spec_def
      using True c nw ladder_one [OF t_def True, of "m (int (n div 8))"]
      by (simp add: t_def n_def [symmetric] b_def [symmetric] array_at_def)
  next
    case False
    then have lt: "8 < t" by simp
    show ?thesis
      unfolding divoom_image_get_dot_info_def Let_def and_ff_small [OF w8] prod
        sint_sdrop3 [OF n31] off tot word_gt8 [OF t16] bitfield_spec_def ub
      using lt nw ladder_two [OF t_def b w8 lt, of "m (int (n div 8) + 1)" "m (int (n div 8))"]
      by (simp add: t_def n_def [symmetric] b_def [symmetric] array_at_def add.commute)
  qed
qed

text \<open>
  C7, as the code has it. For every memory, byte index \<open>i\<close>, bit offset \<open>b < 8\<close> and
  width \<open>w\<close> from 1 to 8, the unaligned LSB-first read returns
  \<open>(bytes[i] >> b) & ((1<<w)-1)\<close> when \<open>b + w \<le> 8\<close> and otherwise \<open>bytes[i] >> b\<close>
  OR-combined with \<open>(bytes[i+1] & ((1 << (w-(8-b)))-1)) << (8-b)\<close>, as long as the bit
  offset is below \<open>2^31\<close>: the offset \<open>8i + b\<close> given to
  \<open>divoom_image_get_dot_info_ex\<close>, and the offset \<open>w * idx\<close> at which
  \<open>divoom_image_get_dot_info\<close> starts field \<open>idx\<close> of width \<open>w\<close>.
\<close>

theorem bit_reader_correct:
  assumes "b < 8" and "1 \<le> w" and "w \<le> 8" and "8 * i + b < 2 ^ 31" and "w * idx < 2 ^ 31"
  shows "divoom_image_get_dot_info_ex bytes (of_nat (8 * i + b)) (of_nat w)
           = bitfield_spec (array_at bytes) i b w \<and>
         divoom_image_get_dot_info bytes (of_nat idx) (of_nat w) =
           bitfield_spec (array_at bytes) ((w * idx) div 8) ((w * idx) mod 8) w"
  using assms get_dot_info_ex_eq [of b w i bytes] get_dot_info_eq [of w idx bytes] by simp

theorem bit_reader_correct_witness:
  "(5::nat) < 8 \<and> (1::nat) \<le> 6 \<and> (6::nat) \<le> 8 \<and>
   divoom_image_get_dot_info_ex (\<lambda>j. [0xA5, 0x3C, 0x0F] ! nat j) 13 6 = 0x39 \<and>
   divoom_image_get_dot_info (\<lambda>j. [0xA5, 0x3C, 0x0F] ! nat j) 2 6 = 0x33"
  using bit_reader_correct [of 5 6 1 2 "\<lambda>j. [0xA5, 0x3C, 0x0F] ! nat j"]
  by (simp add: bitfield_spec_def array_at_def mask_eq_exp_minus_1)

text \<open>
  C7 as stated, for every byte index, fails from bit offset \<open>2^31\<close> on. With \<open>0x11\<close>
  stored \<open>2^28\<close> bytes before the pointer and \<open>0x22\<close> stored \<open>2^28\<close> bytes behind it, the
  8-bit field of byte \<open>i = 2^28\<close> is \<open>0x22\<close>; both readers, asked for that field, return
  \<open>0x11\<close>.
\<close>

definition far_bytes :: smem where
  "far_bytes = (\<lambda>j. if j = - 268435456 then 0x11 else if j = 268435456 then 0x22 else 0)"

theorem bit_reader_counterexample:
  "divoom_image_get_dot_info_ex far_bytes (of_nat (8 * 268435456 + 0)) 8 = 0x11 \<and>
   divoom_image_get_dot_info far_bytes (of_nat 268435456) 8 = 0x11 \<and>
   bitfield_spec (array_at far_bytes) 268435456 0 8 = 0x22 \<and>
   bitfield_spec (array_at far_bytes) ((8 * 268435456) div 8) ((8 * 268435456) mod 8) 8 = 0x22"
  by (simp add: divoom_image_get_dot_info_ex_def divoom_image_get_dot_info_def far_bytes_def
      bitfield_spec_def array_at_def shl32_def shr32_def Let_def sint_signed_drop_bit_eq
      drop_bit_eq_div mask_eq_exp_minus_1)

section \<open>Properties of the bits-per-index functions\<close>

lemma image_get_bits_all:
  "list_all (\<lambda>n. divoom_image_get_bits (of_nat n) = of_nat (bits_needed n)) [1..<257]"
  by code_simp

lemma multipic_get_bits_all:
  "list_all (\<lambda>n. divoom_multipic_get_bits (of_nat n) = of_nat (bits_needed n)) [1..<256]"
  by code_simp

lemma get_bits_zero: "divoom_image_get_bits 0 = 0xffffffff \<and> divoom_multipic_get_bits 0 = 0xff"
  by code_simp

text \<open>
  C6, as the code has it. For palette sizes 1 to 256 \<open>divoom_image_get_bits\<close> returns
  0 for size 1, 1 for size 2, 2 for 3..4, 3 for 5..8, 4 for 9..16, 5 for 17..32,
  6 for 33..64, 7 for 65..128 and 8 for 129..256; \<open>divoom_multipic_get_bits\<close> returns
  the same for every size from 1 that fits its byte argument.
\<close>

theorem get_bits_mapping:
  assumes "1 \<le> n" and "n \<le> 256"
  shows "divoom_image_get_bits (of_nat n) = of_nat (bits_needed n) \<and>
         (n \<le> 255 \<longrightarrow> divoom_multipic_get_bits (of_nat n) = of_nat (bits_needed n))"
  using assms image_get_bits_all multipic_get_bits_all
  by (simp add: list_all_iff)

theorem get_bits_mapping_witness:
  "(1::nat) \<le> 200 \<and> (200::nat) \<le> 256 \<and> divoom_image_get_bits 200 = 8 \<and> divoom_multipic_get_bits 200 = 8"
  using get_bits_mapping [of 200] by (simp add: bits_needed_def)

text \<open>
  C6 as stated fails at size 1: the claim has 1 bit there, the code returns 0.
\<close>

theorem get_bits_one_counterexample:
  "divoom_image_get_bits 1 = 0 \<and> divoom_image_get_bits 1 \<noteq> 1 \<and> divoom_multipic_get_bits 1 = 0"
  by code_simp

section \<open>Properties of the frame stream\<close>

lemma add_data_walk_stuck:
  assumes "add_data_walk m len off c = Some y"
  shows "\<not> (m (unat off) = 0xAA \<and> read_u16 m (unat off + 1) = 0 \<and> off <s len)"
proof (rule add_data_walk.raw_induct
    [where P = "\<lambda>m len off c y. \<not> (m (unat off) = 0xAA \<and> read_u16 m (unat off + 1) = 0 \<and> off <s len)",
     OF _ assms], goal_cases)
  case (1 walk m len off c y)
  show ?case
  proof
    assume a: "m (unat off) = 0xAA \<and> read_u16 m (unat off + 1) = 0 \<and> off <s len"
    with 1(2) have "walk m len off (c + 1) = Some y" by (simp add: Let_def)
    from 1(1) [OF this] a show False by simp
  qed
qed

lemma decode_all_count_stuck:
  assumes "decode_all_count_frames m len off c = Some y"
  shows "\<not> (m (unat off) = 0xAA \<and> read_u16 m (unat off + 1) = 0 \<and> off <s len)"
proof (rule decode_all_count_frames.raw_induct
    [where P = "\<lambda>m len off c y. \<not> (m (unat off) = 0xAA \<and> read_u16 m (unat off + 1) = 0 \<and> off <s len)",
     OF _ assms], goal_cases)
  case (1 walk m len off c y)
  show ?case
  proof
    assume a: "m (unat off) = 0xAA \<and> read_u16 m (unat off + 1) = 0 \<and> off <s len"
    with 1(2) have "walk m len off (c + 1) = Some y" by (simp add: Let_def)
    from 1(1) [OF this] a show False by simp
  qed
qed

lemma get_pic_num_walk_stuck:
  assumes "get_pic_num_walk m len off c = Some y"
  shows "\<not> (read_u16 m (unat off + 1) = 0 \<and> off < len)"
proof (rule get_pic_num_walk.raw_induct
    [where P = "\<lambda>m len off c y. \<not> (read_u16 m (unat off + 1) = 0 \<and> off < len)",
     OF _ assms], goal_cases)
  case (1 walk m len off c y)
  show ?case
  proof
    assume a: "read_u16 m (unat off + 1) = 0 \<and> off < len"
    with 1(2) have "walk m len off (c + 1) = Some y" by (simp add: Let_def)
    from 1(1) [OF this] a show False by simp
  qed
qed

lemma zero_frame_bytes:
  "stream_of [0xAA, 0, 0] 0 = 0xAA" "read_u16 (stream_of [0xAA, 0, 0]) (Suc 0) = 0"
  by (simp_all add: stream_of_def read_u16_def)

text \<open>
  C5 claims that the frame-counting walk of \<open>add_data\<close>, \<open>get_pic_num\<close> and
  \<open>decode_all\<close> terminates on every input, a zero length field included. On the
  three-byte stream \<open>AA 00 00\<close> the offset never moves and none of the three walks
  returns.
\<close>

theorem frame_count_walk_diverges:
  "divoom_image_decode_add_data (\<lambda>i. 0) (Some (handle_on (stream_of []) 0)) (stream_of [0xAA, 0, 0]) 3 0 = None \<and>
   divoom_image_decode_decode_get_pic_num (Some (stream_of [0xAA, 0, 0])) 3 = None \<and>
   decode_all_count_frames (stream_of [0xAA, 0, 0]) 3 0 0 = None"
proof (intro conjI)
  have "add_data_walk (stream_of [0xAA, 0, 0]) 3 0 0 = None"
  proof (cases "add_data_walk (stream_of [0xAA, 0, 0]) 3 0 0")
    case (Some y)
    from add_data_walk_stuck [OF this] show ?thesis
      by (simp add: zero_frame_bytes word_sless_alt)
  qed simp
  then show "divoom_image_decode_add_data (\<lambda>i. 0) (Some (handle_on (stream_of []) 0)) (stream_of [0xAA, 0, 0]) 3 0 = None"
    by (simp add: divoom_image_decode_add_data_def word_sless_alt)
  have "get_pic_num_walk (stream_of [0xAA, 0, 0]) 3 0 0 = None"
  proof (cases "get_pic_num_walk (stream_of [0xAA, 0, 0]) 3 0 0")
    case (Some y)
    from get_pic_num_walk_stuck [OF this] show ?thesis
      by (simp add: zero_frame_bytes)
  qed simp
  then show "divoom_image_decode_decode_get_pic_num (Some (stream_of [0xAA, 0, 0])) 3 = None"
    by (simp add: divoom_image_decode_decode_get_pic_num_def)
  show "decode_all_count_frames (stream_of [0xAA, 0, 0]) 3 0 0 = None"
  proof (cases "decode_all_count_frames (stream_of [0xAA, 0, 0]) 3 0 0")
    case (Some y)
    from decode_all_count_stuck [OF this] show ?thesis
      by (simp add: zero_frame_bytes word_sless_alt)
  qed simp
qed

lemma unat_ucast16: "unat (ucast (x::u16) :: u32) = unat x"
proof -
  have "unat x < 2 ^ 16" using unsigned_less [of x] by simp
  then have "unat x < 2 ^ 32" by simp
  then show ?thesis by (simp add: unsigned_ucast_eq take_bit_nat_eq_self)
qed

lemma unat_ucast8: "unat (ucast (x::u8) :: u32) = unat x"
proof -
  have "unat x < 2 ^ 8" using unsigned_less [of x] by simp
  then have "unat x < 2 ^ 32" by simp
  then show ?thesis by (simp add: unsigned_ucast_eq take_bit_nat_eq_self)
qed



















section \<open>Properties of the palette store\<close>

lemma palette_append_count:
  "snd (palette_append pal f src c k) = c + of_nat k"
  by (induction k arbitrary: pal src c) (simp_all add: Let_def)

lemma unat_succ16: "unat c + Suc k < 65536 \<Longrightarrow> unat ((c::u16) + 1) = Suc (unat c)"
proof -
  assume a: "unat c + Suc k < 65536"
  then have "unat c + 1 < 2 ^ 16" by simp
  then show ?thesis by (simp add: unat_word_ariths)
qed

lemma palette_append_step:
  "palette_append pal f src c (Suc k) =
     palette_append (pal(unat c * 3 := f src, unat c * 3 + 1 := f (src + 1), unat c * 3 + 2 := f (src + 2)))
       f (src + 3) (c + 1) k"
  by (simp add: Let_def)

lemma palette_append_outside:
  "unat c + k < 65536 \<Longrightarrow> i < 3 * unat c \<or> 3 * (unat c + k) \<le> i \<Longrightarrow>
   fst (palette_append pal f src c k) i = pal i"
proof (induction k arbitrary: pal src c)
  case 0
  then show ?case by simp
next
  case (Suc k)
  have s: "unat (c + 1) = Suc (unat c)" by (rule unat_succ16 [OF Suc.prems(1)])
  let ?pal = "pal(unat c * 3 := f src, unat c * 3 + 1 := f (src + 1), unat c * 3 + 2 := f (src + 2))"
  have "fst (palette_append ?pal f (src + 3) (c + 1) k) i = ?pal i"
    using Suc.prems by (intro Suc.IH) (auto simp: s)
  also have "\<dots> = pal i" using Suc.prems by auto
  finally show ?case unfolding palette_append_step .
qed

lemma palette_append_inside:
  "unat c + k < 65536 \<Longrightarrow> j < k \<Longrightarrow> b < 3 \<Longrightarrow>
   fst (palette_append pal f src c k) (3 * (unat c + j) + b) = f (src + 3 * j + b)"
proof (induction k arbitrary: pal src c j)
  case 0
  then show ?case by simp
next
  case (Suc k)
  have s: "unat (c + 1) = Suc (unat c)" by (rule unat_succ16 [OF Suc.prems(1)])
  let ?pal = "pal(unat c * 3 := f src, unat c * 3 + 1 := f (src + 1), unat c * 3 + 2 := f (src + 2))"
  show ?case
  proof (cases j)
    case 0
    have "fst (palette_append ?pal f (src + 3) (c + 1) k) (3 * unat c + b) = ?pal (3 * unat c + b)"
      using Suc.prems by (intro palette_append_outside) (auto simp: s)
    also have "\<dots> = f (src + b)"
      using Suc.prems(3) by (auto simp: numeral_3_eq_3 less_Suc_eq mult.commute)
    finally show ?thesis unfolding palette_append_step using 0 by simp
  next
    case (Suc j')
    have i1: "3 * (unat (c + 1) + j') + b = 3 * (unat c + j) + b" using Suc by (simp add: s)
    have i2: "src + 3 + 3 * j' + b = src + 3 * j + b" using Suc by simp
    have "fst (palette_append ?pal f (src + 3) (c + 1) k) (3 * (unat (c + 1) + j') + b) = f (src + 3 + 3 * j' + b)"
      using Suc.prems Suc by (intro Suc.IH) (auto simp: s)
    then show ?thesis unfolding palette_append_step i1 i2 .
  qed
qed

lemma length_paint: "length (paint pal f off bits cur k) = 3 * k"
  by (induction k arbitrary: cur) (simp_all add: Let_def)

lemma paint_nth:
  "p < k \<Longrightarrow> b < 3 \<Longrightarrow>
   paint pal f off bits cur k ! (3 * p + b)
     = pal (unat (read_index f off (cur + of_nat p * ucast bits) bits AND 0xffff) * 3 + b)"
proof (induction k arbitrary: cur p)
  case 0
  then show ?case by simp
next
  case (Suc k)
  show ?case
  proof (cases p)
    case 0
    then show ?thesis using Suc.prems(2)
      by (auto simp: Let_def numeral_3_eq_3 less_Suc_eq)
  next
    case (Suc p')
    have "paint pal f off bits cur (Suc k) ! (3 * p + b)
          = paint pal f off bits (cur + ucast bits) k ! (3 * p' + b)"
      using Suc by (simp add: Let_def)
    also have "\<dots> = pal (unat (read_index f off (cur + ucast bits + of_nat p' * ucast bits) bits AND 0xffff) * 3 + b)"
      using Suc.prems Suc by (intro Suc.IH) auto
    finally show ?thesis using Suc by (simp add: algebra_simps)
  qed
qed

lemma map_upt_eqI:
  "b - a = d - c \<Longrightarrow> (\<And>i. i < b - a \<Longrightarrow> f (a + i) = g (c + i)) \<Longrightarrow> map f [a..<b] = map g [c..<d]"
  by (rule nth_equalityI) auto

lemma appended_entries:
  assumes "unat c + k < 65536"
  shows "map (fst (palette_append pal f src c k)) [3 * unat c..<3 * (unat c + k)] = map f [src..<src + 3 * k]"
proof (rule map_upt_eqI)
  show "3 * (unat c + k) - 3 * unat c = src + 3 * k - src" by simp
next
  fix i assume "i < 3 * (unat c + k) - 3 * unat c"
  then have i: "i < 3 * k" by simp
  define j where "j = i div 3"
  define b where "b = i mod 3"
  have jb: "i = 3 * j + b" "j < k" "b < 3" using i by (auto simp: j_def b_def)
  have "fst (palette_append pal f src c k) (3 * (unat c + j) + b) = f (src + 3 * j + b)"
    by (rule palette_append_inside [OF assms jb(2,3)])
  then show "fst (palette_append pal f src c k) (3 * unat c + i) = f (src + i)"
    by (simp add: jb(1) algebra_simps)
qed

lemma kept_entries:
  assumes "unat c + k < 65536"
  shows "map (fst (palette_append pal f src c k)) [0..<3 * unat c] = map pal [0..<3 * unat c]"
  using palette_append_outside [OF assms] by simp

lemma unat_add16: "unat (a::u16) + unat b < 65536 \<Longrightarrow> unat (a + b) = unat a + unat b"
  by (simp add: unat_word_ariths)

lemma palette_append_behind:
  "unat c + k < 65536 \<Longrightarrow>
   tail_from (3 * (unat c + k)) (fst (palette_append pal f src c k)) = tail_from (3 * (unat c + k)) pal"
  unfolding tail_from_def by (rule ext) (simp add: palette_append_outside)

lemma palette_extend_props:
  assumes wrap: "unat (pal_count st) + unat (read_u16 frame 6) + 0x100 < 65536"
      and old: "palette st = Some old"
      and run: "palette_extend ok fresh st old frame = Some (st', pal')"
  shows "extends_palette 8 st frame (unat (read_u16 frame 6)) st'"
    and "unat (pal_cap st') =
           (if unat (pal_cap st) < unat (pal_count st) + unat (read_u16 frame 6)
            then unat (pal_count st) + unat (read_u16 frame 6) + 0x100 else unat (pal_cap st))"
    and "pal_count st' \<le> pal_cap st'"
    and "palette st' = Some pal'"
    and "tail_from (3 * (unat (pal_count st) + unat (read_u16 frame 6))) pal' =
           tail_from (3 * (unat (pal_count st) + unat (read_u16 frame 6)))
             (if unat (pal_cap st) < unat (pal_count st) + unat (read_u16 frame 6)
              then fresh ((unat (pal_count st) + unat (read_u16 frame 6)) * 6 + 0x600) else old)"
proof -
  define n where "n = read_u16 frame 6"
  define c where "c = pal_count st"
  define block where "block = fresh ((unat n + unat c) * 6 + 0x600)"
  define base where "base = (if unat (pal_cap st) < unat n + unat c
                  then copy_bytes block old 0 (unat c * 3) else old)"
  define cap where "cap = (if unat (pal_cap st) < unat n + unat c then c + n + 0x100 else pal_cap st)"
  have small: "unat c + unat n < 65536" using wrap by (simp add: n_def c_def)
  from run have st': "st' = st\<lparr>pal_count := snd (palette_append base frame 8 c (unat n)), pal_cap := cap,
        palette := Some (fst (palette_append base frame 8 c (unat n)))\<rparr>"
    and pal': "pal' = fst (palette_append base frame 8 c (unat n))"
    by (auto simp: palette_extend_def Let_def n_def c_def base_def block_def cap_def
        split: if_splits prod.splits)
  have cnt: "unat (pal_count st') = unat c + unat n"
    using small by (simp add: st' palette_append_count unat_add16)
  have base_low: "map base [0..<3 * unat c] = map old [0..<3 * unat c]"
    by (simp add: base_def copy_bytes_def mult.commute)
  have keep: "map (fst (palette_append base frame 8 c (unat n))) [0..<3 * unat c] = map old [0..<3 * unat c]"
    using kept_entries [OF small] base_low by simp
  have app: "map (fst (palette_append base frame 8 c (unat n))) [3 * unat c..<3 * (unat c + unat n)]
             = map frame [8..<8 + 3 * unat n]"
    by (rule appended_entries [OF small])
  show "extends_palette 8 st frame (unat (read_u16 frame 6)) st'"
    using cnt keep app by (simp add: extends_palette_def old st' n_def c_def)
  have cap_big: "unat (c + n + 0x100) = unat c + unat n + 0x100"
    using wrap by (simp add: unat_word_ariths n_def c_def)
  show capv: "unat (pal_cap st') =
           (if unat (pal_cap st) < unat (pal_count st) + unat (read_u16 frame 6)
            then unat (pal_count st) + unat (read_u16 frame 6) + 0x100 else unat (pal_cap st))"
    using cap_big by (simp add: st' cap_def n_def c_def add.commute)
  show "pal_count st' \<le> pal_cap st'"
    unfolding word_le_nat_alt capv cnt [unfolded n_def c_def] by simp
  show "palette st' = Some pal'" by (simp add: st' pal')
  have "tail_from (3 * (unat c + unat n)) pal' = tail_from (3 * (unat c + unat n)) base"
    unfolding pal' by (rule palette_append_behind [OF small])
  also have "\<dots> = tail_from (3 * (unat c + unat n))
                     (if unat (pal_cap st) < unat n + unat c then block else old)"
    by (rule ext) (simp add: tail_from_def base_def copy_bytes_def)
  finally show "tail_from (3 * (unat (pal_count st) + unat (read_u16 frame 6))) pal' =
           tail_from (3 * (unat (pal_count st) + unat (read_u16 frame 6)))
             (if unat (pal_cap st) < unat (pal_count st) + unat (read_u16 frame 6)
              then fresh ((unat (pal_count st) + unat (read_u16 frame 6)) * 6 + 0x600) else old)"
    by (simp add: n_def c_def block_def add.commute)
qed

lemma palette_extend_grows:
  assumes wrap: "unat (pal_count st) + unat (read_u16 frame 6) + 0x100 < 65536"
      and old: "palette st = Some old"
      and run: "palette_extend ok fresh st old frame = Some (st', pal')"
  shows "grows_palette fresh st frame st'"
  using palette_extend_props [OF wrap old run] old
  by (simp add: grows_palette_def Let_def)

lemma palette_extend_None:
  "palette_extend ok fresh st old frame = None \<longleftrightarrow>
     unat (pal_cap st) < unat (pal_count st) + unat (read_u16 frame 6) \<and> \<not> ok"
  by (auto simp: palette_extend_def Let_def add.commute split: prod.splits)

lemma big_continuation:
  assumes wrap: "unat (pal_count st) + unat (read_u16 frame 6) + 0x100 < 65536"
      and old: "palette st = Some old" and magic: "frame 0 = 0xAA" and kind: "frame 5 AND 0x7f = 4"
  shows "case divoom_image_decode_decode_one_big tbl ok fresh ov st (Some frame) of
           Inr (st', px, c, dl) \<Rightarrow> grows_palette fresh st frame st'
         | Inl e \<Rightarrow> e = Err 0x1509 \<and> \<not> ok \<and> unat (pal_cap st) < unat (pal_count st) + unat (read_u16 frame 6)"
proof (cases "palette_extend ok fresh st old frame")
  case None
  then have "unat (pal_cap st) < unat (pal_count st) + unat (read_u16 frame 6) \<and> \<not> ok"
    by (simp add: palette_extend_None)
  then show ?thesis using magic kind old None
    by (simp add: divoom_image_decode_decode_one_big_def Let_def)
next
  case (Some r)
  obtain st' pal' where r: "r = (st', pal')" by (cases r)
  from palette_extend_grows [OF wrap old Some [unfolded r]] show ?thesis using magic kind old Some r
    by (simp add: divoom_image_decode_decode_one_big_def Let_def split: prod.splits)
qed

lemma kind64_guard:
  "(k::u8) \<in> {0xd, 0x10, 0x8d, 0x90} \<Longrightarrow> \<not> (ucast (k AND 0x7f) :: u32) - 0x11 < 0xfffffffa"
  by auto

lemma d64_continuation:
  assumes wrap: "unat (pal_count st) + unat (read_u16 frame 6) + 0x100 < 65536"
      and old: "palette st = Some old" and magic: "frame 0 = 0xAA" and kind: "frame 5 \<in> {0xd, 0x10, 0x8d, 0x90}"
  shows "case divoom_image_decode_decode_one_64 tbl ok fresh ov cpo st (Some frame) of
           Inr (st', px, c, dl) \<Rightarrow> grows_palette fresh st frame st'
         | Inl e \<Rightarrow> e = Err 0x10c5 \<and> \<not> ok \<and> unat (pal_cap st) < unat (pal_count st) + unat (read_u16 frame 6)"
proof -
  have g: "\<not> (ucast (frame 5 AND 0x7f) :: u32) - 0x11 < 0xfffffffa" by (rule kind64_guard [OF kind])
  have nr: "frame 5 \<notin> {0xb, 0xe, 0x8b, 0x8e}" using kind by auto
  show ?thesis
  proof (cases "palette_extend ok fresh st old frame")
    case None
    then have "unat (pal_cap st) < unat (pal_count st) + unat (read_u16 frame 6) \<and> \<not> ok"
      by (simp add: palette_extend_None)
    then show ?thesis using magic kind old g nr None
      by (simp add: divoom_image_decode_decode_one_64_def Let_def del: insert_iff)
  next
    case (Some r)
    obtain st' pal' where r: "r = (st', pal')" by (cases r)
    from palette_extend_grows [OF wrap old Some [unfolded r]] show ?thesis using magic kind old Some r g nr
      by (simp add: divoom_image_decode_decode_one_64_def Let_def del: insert_iff split: prod.splits)
  qed
qed

lemma kind128_guard: "(k::u8) AND 0x7f = 0x13 \<Longrightarrow> k AND 0x7d = 0x11"
proof -
  assume a: "k AND 0x7f = 0x13"
  have "k AND 0x7d = (k AND 0x7f) AND 0x7d" by (simp add: and.assoc)
  then show ?thesis by (simp add: a)
qed

lemma d128_continuation:
  assumes wrap: "unat (pal_count st) + unat (read_u16 frame 6) + 0x100 < 65536"
      and old: "palette st = Some old" and magic: "frame 0 = 0xAA" and kind: "frame 5 AND 0x7f = 0x13"
  shows "case divoom_image_decode_decode_one_128 tbl ok fresh ov st (Some frame) of
           Inr (st', px, c, dl) \<Rightarrow> grows_palette fresh st frame st'
         | Inl e \<Rightarrow> e = Err 0x1163 \<and> \<not> ok \<and> unat (pal_cap st) < unat (pal_count st) + unat (read_u16 frame 6)"
proof (cases "palette_extend ok fresh st old frame")
  case None
  then have "unat (pal_cap st) < unat (pal_count st) + unat (read_u16 frame 6) \<and> \<not> ok"
    by (simp add: palette_extend_None)
  then show ?thesis using magic kind old kind128_guard [OF kind] None
    by (simp add: divoom_image_decode_decode_one_128_def Let_def)
next
  case (Some r)
  obtain st' pal' where r: "r = (st', pal')" by (cases r)
  from palette_extend_grows [OF wrap old Some [unfolded r]] show ?thesis
    using magic kind old Some r kind128_guard [OF kind]
    by (simp add: divoom_image_decode_decode_one_128_def Let_def split: prod.splits)
qed

lemma unat_ucast8_16: "unat (ucast (x::u8) :: u16) = unat x"
proof -
  have "unat x < 2 ^ 8" using unsigned_less [of x] by simp
  then have "unat x < 2 ^ 16" by simp
  then show ?thesis by (simp add: unsigned_ucast_eq take_bit_nat_eq_self)
qed

lemma one_continuation:
  assumes old: "palette st = Some old" and magic: "frame 0 = 0xAA" and kind: "frame 5 = 1"
  shows "case divoom_image_decode_decode_one tbl fresh st (Some frame) of
           Inr (st', px, c, dl) \<Rightarrow>
             extends_palette 7 st frame (unat (frame 6)) st' \<and> pal_cap st' = pal_cap st \<and>
             pal_count st' \<le> pal_cap st' \<and>
             map_option (tail_from (3 * (unat (pal_count st) + unat (frame 6)))) (palette st') =
               map_option (tail_from (3 * (unat (pal_count st) + unat (frame 6)))) (palette st)
         | Inl e \<Rightarrow> e = Err 0x1594 \<and> unat (pal_cap st) < unat (pal_count st) + unat (frame 6)"
proof -
  define n where "n = frame 6"
  define c where "c = pal_count st"
  have cmp: "((ucast (pal_cap st) :: u32) < ucast c + ucast n) = (unat (pal_cap st) < unat c + unat n)"
  proof -
    have "unat c < 2 ^ 16" "unat n < 2 ^ 8" using unsigned_less [of c] unsigned_less [of n] by simp_all
    then have "unat c + unat n < 2 ^ 32" by simp
    then have "unat (ucast c + ucast n :: u32) = unat c + unat n"
      by (simp add: unat_word_ariths unat_ucast16 unat_ucast8)
    then show ?thesis by (simp add: word_less_nat_alt unat_ucast16)
  qed
  show ?thesis
  proof (cases "unat (pal_cap st) < unat c + unat n")
    case True
    then show ?thesis using magic kind old cmp
      by (simp add: divoom_image_decode_decode_one_def Let_def n_def c_def)
  next
    case False
    have "unat (pal_cap st) < 2 ^ 16" using unsigned_less [of "pal_cap st"] by simp
    with False have small: "unat c + unat n < 65536" by simp
    have "unat (c + ucast n) = unat c + unat (ucast n :: u16)"
      using small by (intro unat_add16) (simp add: unat_ucast8_16)
    then have cnt: "unat (snd (palette_append old frame 7 c (unat n))) = unat c + unat n"
      by (simp add: palette_append_count unat_ucast8_16)
    obtain p q where pq: "palette_append old frame 7 c (unat n) = (p, q)"
      by (cases "palette_append old frame 7 c (unat n)")
    have q: "unat q = unat c + unat n" using cnt pq by simp
    have keep: "map p [0..<3 * unat c] = map old [0..<3 * unat c]"
      using kept_entries [OF small, of old frame 7] pq by simp
    have app: "map p [3 * unat c..<3 * (unat c + unat n)] = map frame [7..<7 + 3 * unat n]"
      using appended_entries [OF small, of old frame 7] pq by simp
    have behind: "tail_from (3 * (unat c + unat n)) p = tail_from (3 * (unat c + unat n)) old"
      using palette_append_behind [OF small, of old frame 7] pq by simp
    have le: "q \<le> pal_cap st" using False q by (simp add: word_le_nat_alt)
    show ?thesis using magic kind old cmp False pq q keep app le behind
      by (simp add: divoom_image_decode_decode_one_def Let_def n_def [symmetric] c_def [symmetric]
            extends_palette_def)
  qed
qed

text \<open>
  C3, as the code has it, on a handle that holds a palette. A continuation frame of
  kind 4 (32 by 32), \<open>0x0d\<close> or \<open>0x10\<close> (64 by 64) or \<open>0x13\<close> (128 by 128), with count
  plus new entries plus \<open>0x100\<close> below \<open>2^16\<close>: when the entries exceed the capacity the
  decoder allocates a block of \<open>(count + new) * 6 + 0x600\<close> bytes, stores
  count + new + \<open>0x100\<close> as capacity, keeps the old entries and appends the new triples in
  that block; within the capacity it appends in the old buffer; the count is at most the
  capacity afterwards, and the only failure is the allocation. A frame of kind 1 (16 by
  16), whose number of new entries is the byte at offset 6, is refused when its entries
  exceed the capacity, and appended in the old buffer otherwise.
\<close>

theorem palette_continuation:
  assumes "palette st = Some old" and "frame 0 = 0xAA"
  shows "(frame 5 AND 0x7f = 4 \<and> unat (pal_count st) + unat (read_u16 frame 6) + 0x100 < 65536 \<longrightarrow>
           (case divoom_image_decode_decode_one_big tbl ok fresh ov st (Some frame) of
              Inr (st', px, c, dl) \<Rightarrow> grows_palette fresh st frame st'
            | Inl e \<Rightarrow> e = Err 0x1509 \<and> \<not> ok \<and>
                       unat (pal_cap st) < unat (pal_count st) + unat (read_u16 frame 6))) \<and>
         (frame 5 \<in> {0xd, 0x10, 0x8d, 0x90} \<and>
          unat (pal_count st) + unat (read_u16 frame 6) + 0x100 < 65536 \<longrightarrow>
           (case divoom_image_decode_decode_one_64 tbl ok fresh ov cpo st (Some frame) of
              Inr (st', px, c, dl) \<Rightarrow> grows_palette fresh st frame st'
            | Inl e \<Rightarrow> e = Err 0x10c5 \<and> \<not> ok \<and>
                       unat (pal_cap st) < unat (pal_count st) + unat (read_u16 frame 6))) \<and>
         (frame 5 AND 0x7f = 0x13 \<and> unat (pal_count st) + unat (read_u16 frame 6) + 0x100 < 65536 \<longrightarrow>
           (case divoom_image_decode_decode_one_128 tbl ok fresh ov st (Some frame) of
              Inr (st', px, c, dl) \<Rightarrow> grows_palette fresh st frame st'
            | Inl e \<Rightarrow> e = Err 0x1163 \<and> \<not> ok \<and>
                       unat (pal_cap st) < unat (pal_count st) + unat (read_u16 frame 6))) \<and>
         (frame 5 = 1 \<longrightarrow>
           (case divoom_image_decode_decode_one tbl fresh st (Some frame) of
              Inr (st', px, c, dl) \<Rightarrow>
                extends_palette 7 st frame (unat (frame 6)) st' \<and> pal_cap st' = pal_cap st \<and>
                pal_count st' \<le> pal_cap st' \<and>
                map_option (tail_from (3 * (unat (pal_count st) + unat (frame 6)))) (palette st') =
                  map_option (tail_from (3 * (unat (pal_count st) + unat (frame 6)))) (palette st)
            | Inl e \<Rightarrow> e = Err 0x1594 \<and> unat (pal_cap st) < unat (pal_count st) + unat (frame 6)))"
proof (intro conjI impI)
  assume "frame 5 AND 0x7f = 4 \<and> unat (pal_count st) + unat (read_u16 frame 6) + 0x100 < 65536"
  then show "case divoom_image_decode_decode_one_big tbl ok fresh ov st (Some frame) of
              Inr (st', px, c, dl) \<Rightarrow> grows_palette fresh st frame st'
            | Inl e \<Rightarrow> e = Err 0x1509 \<and> \<not> ok \<and>
                       unat (pal_cap st) < unat (pal_count st) + unat (read_u16 frame 6)"
    using assms by (intro big_continuation) simp_all
next
  assume "frame 5 \<in> {0xd, 0x10, 0x8d, 0x90} \<and>
          unat (pal_count st) + unat (read_u16 frame 6) + 0x100 < 65536"
  then show "case divoom_image_decode_decode_one_64 tbl ok fresh ov cpo st (Some frame) of
              Inr (st', px, c, dl) \<Rightarrow> grows_palette fresh st frame st'
            | Inl e \<Rightarrow> e = Err 0x10c5 \<and> \<not> ok \<and>
                       unat (pal_cap st) < unat (pal_count st) + unat (read_u16 frame 6)"
    using assms by (intro d64_continuation) (simp_all del: insert_iff)
next
  assume "frame 5 AND 0x7f = 0x13 \<and> unat (pal_count st) + unat (read_u16 frame 6) + 0x100 < 65536"
  then show "case divoom_image_decode_decode_one_128 tbl ok fresh ov st (Some frame) of
              Inr (st', px, c, dl) \<Rightarrow> grows_palette fresh st frame st'
            | Inl e \<Rightarrow> e = Err 0x1163 \<and> \<not> ok \<and>
                       unat (pal_cap st) < unat (pal_count st) + unat (read_u16 frame 6)"
    using assms by (intro d128_continuation) simp_all
next
  assume "frame 5 = 1"
  then show "case divoom_image_decode_decode_one tbl fresh st (Some frame) of
              Inr (st', px, c, dl) \<Rightarrow>
                extends_palette 7 st frame (unat (frame 6)) st' \<and> pal_cap st' = pal_cap st \<and>
                pal_count st' \<le> pal_cap st' \<and>
                map_option (tail_from (3 * (unat (pal_count st) + unat (frame 6)))) (palette st') =
                  map_option (tail_from (3 * (unat (pal_count st) + unat (frame 6)))) (palette st)
            | Inl e \<Rightarrow> e = Err 0x1594 \<and> unat (pal_cap st) < unat (pal_count st) + unat (frame 6)"
    using assms by (intro one_continuation)
qed

text \<open>
  Two runs of it. A kind-4 frame with one entry on a full palette of 256 entries: the
  palette moves to the new block, of which byte \<open>0x303\<close>, the first behind the entries,
  is seen. A kind-1 frame whose byte at offset 7, the first byte of its entry, is \<open>0xFF\<close>.
\<close>

theorem palette_continuation_witness:
  "(case divoom_image_decode_decode_one_big spec_bits_table True (\<lambda>n i. if n = 0xc06 then 0x5A else 0) False
          (handle_with_palette 0x100 0x100 [])
          (Some (stream_of [0xAA, 0, 0, 0, 0, 4, 1, 0, 7, 8, 9])) of
     Inr (st', px, c, dl) \<Rightarrow>
       unat (pal_count st') = 0x101 \<and> unat (pal_cap st') = 0x201 \<and> pal_count st' \<le> pal_cap st' \<and>
       map_option (\<lambda>pal. pal 0x303) (palette st') = Some 0x5A
   | Inl e \<Rightarrow> False) \<and>
   (case divoom_image_decode_decode_one spec_bits_table (\<lambda>n i. 0)
          (handle_with_palette 2 0x40 [10, 20, 30, 40, 50, 60])
          (Some (stream_of [0xAA, 0, 0, 0, 0, 1, 1, 0xFF, 8, 9])) of
     Inr (st', px, c, dl) \<Rightarrow> unat (pal_count st') = 3 \<and> pal_cap st' = 0x40
   | Inl e \<Rightarrow> unat (pal_cap (handle_with_palette 2 0x40 [10, 20, 30, 40, 50, 60])) < 3)"
proof -
  let ?fresh = "\<lambda>n i. if n = 0xc06 then 0x5A else (0::u8)"
  let ?st = "handle_with_palette 0x100 0x100 []"
  let ?f = "stream_of [0xAA, 0, 0, 0, 0, 4, 1, 0, 7, 8, 9]"
  let ?st1 = "handle_with_palette 2 0x40 [10, 20, 30, 40, 50, 60]"
  let ?f1 = "stream_of [0xAA, 0, 0, 0, 0, 1, 1, 0xFF, 8, 9]"
  have h2: "palette ?st = Some (stream_of [])" by (simp add: handle_with_palette_def)
  have h3: "?f 0 = 0xAA" by (simp add: stream_of_def)
  have k: "?f 5 AND 0x7f = 4 \<and> unat (pal_count ?st) + unat (read_u16 ?f 6) + 0x100 < 65536"
    by (simp add: handle_with_palette_def stream_of_def read_u16_def)
  have n: "unat (read_u16 ?f 6) = 1" "unat (pal_count ?st) = 256" "unat (pal_cap ?st) = 256"
    by (simp_all add: handle_with_palette_def stream_of_def read_u16_def)
  from palette_continuation [where st = ?st and frame = ?f and tbl = spec_bits_table and ok = True
      and fresh = ?fresh and ov = False, OF h2 h3] k
  have t: "case divoom_image_decode_decode_one_big spec_bits_table True ?fresh False ?st (Some ?f) of
          Inr (st', px, c, dl) \<Rightarrow> grows_palette ?fresh ?st ?f st'
        | Inl e \<Rightarrow> e = Err 0x1509 \<and> \<not> True \<and> unat (pal_cap ?st) < unat (pal_count ?st) + unat (read_u16 ?f 6)"
    by blast
  have 1: "case divoom_image_decode_decode_one_big spec_bits_table True ?fresh False ?st (Some ?f) of
     Inr (st', px, c, dl) \<Rightarrow>
       unat (pal_count st') = 0x101 \<and> unat (pal_cap st') = 0x201 \<and> pal_count st' \<le> pal_cap st' \<and>
       map_option (\<lambda>pal. pal 0x303) (palette st') = Some 0x5A
   | Inl e \<Rightarrow> False"
  proof (cases "divoom_image_decode_decode_one_big spec_bits_table True ?fresh False ?st (Some ?f)")
    case (Inl e)
    with t show ?thesis by simp
  next
    case (Inr r)
    obtain st' px c dl where r: "r = (st', px, c, dl)" by (cases r)
    from t Inr r have g: "grows_palette ?fresh ?st ?f st'" by simp
    then have cnt: "unat (pal_count st') = 0x101" and cap: "unat (pal_cap st') = 0x201"
      and le: "pal_count st' \<le> pal_cap st'"
      and tl: "map_option (tail_from 771) (palette st') = Some (tail_from 771 (?fresh 3078))"
      by (auto simp: grows_palette_def extends_palette_def Let_def n h2 split: option.splits)
    from tl obtain pal where pal: "palette st' = Some pal" "tail_from 771 pal = tail_from 771 (?fresh 3078)"
      by (cases "palette st'") auto
    from pal(2) have "tail_from 771 pal 0 = tail_from 771 (?fresh 3078) 0" by simp
    then have "pal 771 = 0x5A" by (simp add: tail_from_def)
    with cnt cap le pal(1) show ?thesis using Inr r by simp
  qed
  have g2: "palette ?st1 = Some (stream_of [10, 20, 30, 40, 50, 60])" by (simp add: handle_with_palette_def)
  have g3: "?f1 0 = 0xAA" by (simp add: stream_of_def)
  have k1: "?f1 5 = 1" by (simp add: stream_of_def)
  have n1: "unat (?f1 6) = 1" "unat (pal_count ?st1) = 2" "pal_cap ?st1 = 0x40"
    by (simp_all add: handle_with_palette_def stream_of_def)
  from palette_continuation [where st = ?st1 and frame = ?f1 and tbl = spec_bits_table
      and fresh = "\<lambda>n i. 0", OF g2 g3] k1
  have "case divoom_image_decode_decode_one spec_bits_table (\<lambda>n i. 0) ?st1 (Some ?f1) of
              Inr (st', px, c, dl) \<Rightarrow>
                extends_palette 7 ?st1 ?f1 (unat (?f1 6)) st' \<and> pal_cap st' = pal_cap ?st1 \<and>
                pal_count st' \<le> pal_cap st' \<and>
                map_option (tail_from (3 * (unat (pal_count ?st1) + unat (?f1 6)))) (palette st') =
                  map_option (tail_from (3 * (unat (pal_count ?st1) + unat (?f1 6)))) (palette ?st1)
            | Inl e \<Rightarrow> e = Err 0x1594 \<and> unat (pal_cap ?st1) < unat (pal_count ?st1) + unat (?f1 6)"
    by blast
  then have 2: "case divoom_image_decode_decode_one spec_bits_table (\<lambda>n i. 0) ?st1 (Some ?f1) of
     Inr (st', px, c, dl) \<Rightarrow> unat (pal_count st') = 3 \<and> pal_cap st' = 0x40
   | Inl e \<Rightarrow> unat (pal_cap ?st1) < 3"
    by (auto simp: extends_palette_def Let_def n1 split: sum.splits option.splits prod.splits)
  from 1 2 show ?thesis by blast
qed

text \<open>
  C3 as stated fails for kind 1: with 60 entries in a palette of capacity 64, a frame
  that brings 5 more is refused, not given a larger palette.
\<close>

theorem palette_continuation_counterexample:
  "divoom_image_decode_decode_one spec_bits_table (\<lambda>n i. 0)
     (handle_with_palette 60 64 [])
     (Some (stream_of [0xAA, 0, 0, 0, 0, 1, 5])) = Inl (Err 0x1594) \<and>
   unat (pal_count (handle_with_palette 60 64 [])) + 5 > unat (pal_cap (handle_with_palette 60 64 []))"
  by (simp add: divoom_image_decode_decode_one_def handle_with_palette_def stream_of_def Let_def)









text \<open>
  Why the bound of 8 entries: with separate buffers a frame of 8 entries goes through the
  stage of eight, whose three values land at bytes 0, 64 and 128 of the palette. Bytes
  8 to 23, where entries 2 to 7 belong, keep what the palette held.
\<close>

definition eight_entry_frame :: "u8 list" where
  "eight_entry_frame =
     [0xAA, 0, 0, 0, 0, 3, 8, 0,
      1, 2, 3, 4, 5, 6, 7, 8, 9, 10, 11, 12, 13, 14, 15, 16, 17, 18, 19, 20, 21, 22, 23, 24]"

lemma kind3_eight_entries:
  "case divoom_image_decode_decode_one_big spec_bits_table True (\<lambda>n i. 0) False
          (handle_with_palette 3 0x100 (replicate 9 0x63))
          (Some (stream_of eight_entry_frame)) of
     Inr (st', px, c, dl) \<Rightarrow>
       pal_count st' = 8 \<and>
       map (the (palette st')) [0..<9] = [1, 2, 3, 4, 5, 6, 7, 8, 0x63] \<and>
       map (the (palette st')) [64..<72] = [9, 10, 11, 12, 13, 14, 15, 16] \<and>
       map (the (palette st')) [128..<136] = [17, 18, 19, 20, 21, 22, 23, 24]
   | Inl e \<Rightarrow> False"
  by (simp add: divoom_image_decode_decode_one_big_def handle_with_palette_def stream_of_def Let_def
      read_u16_def palette_reset_def reset_entries_def store8_def indexed_body_def upt_rec
      eight_entry_frame_def)

lemma kind64_raw_guard:
  "(k::u8) \<in> {0xb, 0xe, 0x8b, 0x8e} \<Longrightarrow> \<not> (ucast (k AND 0x7f) :: u32) - 0x11 < 0xfffffffa"
  by auto

lemma kind2_guard: "(k::u8) AND 0x7f = 2 \<Longrightarrow> k AND 0x7e = 2"
proof -
  assume a: "k AND 0x7f = 2"
  have "k AND 0x7e = (k AND 0x7f) AND 0x7e" by (simp add: and.assoc)
  then show ?thesis by (simp add: a)
qed

lemma big_continuation_needs_palette:
  "g 5 AND 0x7f = 4 \<Longrightarrow> palette st = None \<Longrightarrow>
   \<exists>e. divoom_image_decode_decode_one_big tbl ok fresh ov st (Some g) = Inl e"
  by (simp add: divoom_image_decode_decode_one_big_def Let_def)

lemma d64_continuation_needs_palette:
  "g 5 \<in> {0xd, 0x10, 0x8d, 0x90} \<Longrightarrow> palette st = None \<Longrightarrow>
   \<exists>e. divoom_image_decode_decode_one_64 tbl ok fresh ov cpo st (Some g) = Inl e"
proof -
  assume k: "g 5 \<in> {0xd, 0x10, 0x8d, 0x90}" and p: "palette st = None"
  have nr: "g 5 \<notin> {0xb, 0xe, 0x8b, 0x8e}" using k by auto
  show ?thesis using k nr p
    by (simp add: divoom_image_decode_decode_one_64_def Let_def del: insert_iff)
qed

text \<open>
  C10. Decoding a raw truecolor frame (kind 2 at 32 by 32, kinds \<open>0x0b\<close> and \<open>0x0e\<close> at
  64 by 64, with or without the high bit) succeeds and leaves the handle without a
  palette; any palette-continuation frame (kind 4, or \<open>0x0d\<close> and \<open>0x10\<close>) decoded next
  on that handle fails with an error.
\<close>

theorem raw_frame_drops_palette:
  assumes "f 0 = 0xAA"
  shows "(f 5 AND 0x7f = 2 \<longrightarrow>
            (\<exists>px c dl. divoom_image_decode_decode_one_big tbl ok fresh ov st (Some f)
                          = Inr (st\<lparr>palette := None\<rparr>, px, c, dl)) \<and>
            (g 5 AND 0x7f = 4 \<longrightarrow>
               (\<exists>e. divoom_image_decode_decode_one_big tbl' ok' fresh' ov' (st\<lparr>palette := None\<rparr>) (Some g) = Inl e))) \<and>
         (f 5 \<in> {0xb, 0xe, 0x8b, 0x8e} \<longrightarrow>
            (\<exists>px c dl. divoom_image_decode_decode_one_64 tbl ok fresh ov cpo st (Some f)
                          = Inr (st\<lparr>palette := None\<rparr>, px, c, dl)) \<and>
            (g 5 \<in> {0xd, 0x10, 0x8d, 0x90} \<longrightarrow>
               (\<exists>e. divoom_image_decode_decode_one_64 tbl' ok' fresh' ov' cpo' (st\<lparr>palette := None\<rparr>) (Some g) = Inl e)))"
proof (intro conjI impI)
  assume k: "f 5 AND 0x7f = 2"
  show "\<exists>px c dl. divoom_image_decode_decode_one_big tbl ok fresh ov st (Some f)
                          = Inr (st\<lparr>palette := None\<rparr>, px, c, dl)"
    using assms k kind2_guard [OF k]
    by (simp add: divoom_image_decode_decode_one_big_def Let_def split: prod.splits)
next
  assume "g 5 AND 0x7f = 4"
  then show "\<exists>e. divoom_image_decode_decode_one_big tbl' ok' fresh' ov' (st\<lparr>palette := None\<rparr>) (Some g) = Inl e"
    by (intro big_continuation_needs_palette) simp_all
next
  assume k: "f 5 \<in> {0xb, 0xe, 0x8b, 0x8e}"
  show "\<exists>px c dl. divoom_image_decode_decode_one_64 tbl ok fresh ov cpo st (Some f)
                          = Inr (st\<lparr>palette := None\<rparr>, px, c, dl)"
    using assms k kind64_raw_guard [OF k]
    by (simp add: divoom_image_decode_decode_one_64_def Let_def del: insert_iff split: prod.splits)
next
  assume "g 5 \<in> {0xd, 0x10, 0x8d, 0x90}"
  then show "\<exists>e. divoom_image_decode_decode_one_64 tbl' ok' fresh' ov' cpo' (st\<lparr>palette := None\<rparr>) (Some g) = Inl e"
    by (intro d64_continuation_needs_palette) simp_all
qed

theorem raw_frame_drops_palette_witness:
  "stream_of [0xAA, 8, 0xc, 0, 0, 2] 0 = 0xAA \<and>
   (\<exists>e. divoom_image_decode_decode_one_big spec_bits_table True (\<lambda>n i. 0) False
          ((handle_with_palette 2 0x100 [10, 20, 30, 40, 50, 60])\<lparr>palette := None\<rparr>)
          (Some (stream_of [0xAA, 0, 0, 0, 0, 4, 1, 0, 7, 8, 9])) = Inl e) \<and>
   (\<exists>e. divoom_image_decode_decode_one_64 spec_bits_table True (\<lambda>n i. 0) False 0
          ((handle_with_palette 2 0x100 [10, 20, 30, 40, 50, 60])\<lparr>palette := None\<rparr>)
          (Some (stream_of [0xAA, 0, 0, 0, 0, 0xd, 1, 0, 7, 8, 9])) = Inl e)"
proof -
  have h: "stream_of [0xAA, 8, 0xc, 0, 0, 2] 0 = 0xAA" by (simp add: stream_of_def)
  have a: "stream_of [0xAA, 8, 0xc, 0, 0, 2] 5 AND 0x7f = 2"
          "stream_of [0xAA, 0, 0, 0, 0, 4, 1, 0, 7, 8, 9] 5 AND 0x7f = 4"
    by (simp_all add: stream_of_def)
  have h2: "stream_of [0xAA, 8, 0xc, 0, 0, 0xb] 0 = 0xAA" by (simp add: stream_of_def)
  have b: "stream_of [0xAA, 8, 0xc, 0, 0, 0xb] 5 \<in> {0xb, 0xe, 0x8b, 0x8e}"
          "stream_of [0xAA, 0, 0, 0, 0, 0xd, 1, 0, 7, 8, 9] 5 \<in> {0xd, 0x10, 0x8d, 0x90}"
    by (simp_all add: stream_of_def)
  from raw_frame_drops_palette [where f = "stream_of [0xAA, 8, 0xc, 0, 0, 2]"
      and g = "stream_of [0xAA, 0, 0, 0, 0, 4, 1, 0, 7, 8, 9]"
      and st = "handle_with_palette 2 0x100 [10, 20, 30, 40, 50, 60]"
      and tbl' = spec_bits_table and ok' = True and fresh' = "\<lambda>n i. 0", OF h] a
  have 1: "\<exists>e. divoom_image_decode_decode_one_big spec_bits_table True (\<lambda>n i. 0) False
          ((handle_with_palette 2 0x100 [10, 20, 30, 40, 50, 60])\<lparr>palette := None\<rparr>)
          (Some (stream_of [0xAA, 0, 0, 0, 0, 4, 1, 0, 7, 8, 9])) = Inl e" by blast
  from raw_frame_drops_palette [where f = "stream_of [0xAA, 8, 0xc, 0, 0, 0xb]"
      and g = "stream_of [0xAA, 0, 0, 0, 0, 0xd, 1, 0, 7, 8, 9]"
      and st = "handle_with_palette 2 0x100 [10, 20, 30, 40, 50, 60]"
      and tbl' = spec_bits_table and ok' = True and fresh' = "\<lambda>n i. 0", OF h2] b
  have 2: "\<exists>e. divoom_image_decode_decode_one_64 spec_bits_table True (\<lambda>n i. 0) False 0
          ((handle_with_palette 2 0x100 [10, 20, 30, 40, 50, 60])\<lparr>palette := None\<rparr>)
          (Some (stream_of [0xAA, 0, 0, 0, 0, 0xd, 1, 0, 7, 8, 9])) = Inl e" by blast
  from h 1 2 show ?thesis by blast
qed

section \<open>Properties of the pixel loop\<close>

lemma unat_off7: "unat (ucast (x::u8) * 3 + 7 :: u32) = 3 * unat x + 7"
proof -
  have "unat x < 2 ^ 8" using unsigned_less [of x] by simp
  then have "unat x * 3 + 7 < 2 ^ 32" by simp
  then show ?thesis by (simp add: unat_word_ariths unat_ucast8 mult.commute)
qed

lemma unat_off8: "unat (ucast (ucast (x::u16) * 3 + 8 :: u32) :: u16) = (3 * unat x + 8) mod 65536"
proof -
  have "unat x < 2 ^ 16" using unsigned_less [of x] by simp
  then have "unat x * 3 + 8 < 2 ^ 32" by simp
  then have "unat (ucast x * 3 + 8 :: u32) = 3 * unat x + 8"
    by (simp add: unat_word_ariths unat_ucast16 mult.commute)
  then show ?thesis by (simp add: unsigned_ucast_eq take_bit_eq_mod)
qed

lemma ucast_8_32_16: "(ucast (ucast (x::u8) :: u32) :: u16) = ucast x"
  by (rule bit_word_eqI) (auto simp: bit_simps)

lemma byte_le_1: "((k::u8) \<le> 1) = (k = 0 \<or> k = 1)"
proof -
  have "(k \<le> 1) = (unat k \<le> 1)" by (simp add: word_le_nat_alt)
  also have "\<dots> = (unat k = 0 \<or> unat k = 1)" by auto
  also have "\<dots> = (k = 0 \<or> k = 1)" by (simp add: word_unat_eq_iff)
  finally show ?thesis .
qed

lemma paint_looked_up: "looked_up pal frame off bits npix (paint pal frame off bits 0 npix)"
  by (simp add: looked_up_def length_paint paint_nth)

lemma one_lookup:
  assumes "divoom_image_decode_decode_one tbl fresh st (Some frame) = Inr (st', px, c, dl)"
  shows "\<exists>pal. palette st' = Some pal \<and>
           looked_up pal frame
             (3 * (if frame 5 = 0 \<and> frame 6 = 0 then 256 else unat (frame 6)) + 7)
             (tbl (unat (pal_count st'))) 256 px"
proof (cases "frame 5 = 0")
  case True
  show ?thesis
  proof (cases "frame 6 = 0")
    case z: True
    from assms True z show ?thesis
      by (auto simp: divoom_image_decode_decode_one_def Let_def paint_looked_up split: if_splits)
  next
    case nz: False
    from assms True nz show ?thesis
      by (auto simp: divoom_image_decode_decode_one_def Let_def paint_looked_up unat_off7
          unat_ucast8 unat_ucast8_16 ucast_8_32_16 split: if_splits)
  qed
next
  case False
  from assms False show ?thesis
    by (auto simp: divoom_image_decode_decode_one_def Let_def paint_looked_up unat_off7
        split: if_splits option.splits prod.splits)
qed

lemma one_accepts:
  "(\<exists>r. divoom_image_decode_decode_one tbl fresh st (Some frame) = Inr r) \<longleftrightarrow>
     frame 0 = 0xAA \<and> frame 5 \<le> 1 \<and>
     (frame 5 = 1 \<longrightarrow> palette st \<noteq> None \<and> unat (pal_count st) + unat (frame 6) \<le> unat (pal_cap st))"
proof -
  have cmp: "((ucast (pal_cap st) :: u32) < ucast (pal_count st) + ucast (frame 6))
               = (unat (pal_cap st) < unat (pal_count st) + unat (frame 6))"
  proof -
    have "unat (pal_count st) < 2 ^ 16" "unat (frame 6) < 2 ^ 8"
      using unsigned_less [of "pal_count st"] unsigned_less [of "frame 6"] by simp_all
    then have "unat (pal_count st) + unat (frame 6) < 2 ^ 32" by simp
    then have "unat (ucast (pal_count st) + ucast (frame 6) :: u32) = unat (pal_count st) + unat (frame 6)"
      by (simp add: unat_word_ariths unat_ucast16 unat_ucast8)
    then show ?thesis by (simp add: word_less_nat_alt unat_ucast16)
  qed
  have k: "(frame 5 \<le> 1) = (frame 5 = 0 \<or> frame 5 = 1)" by (rule byte_le_1)
  have k2: "(1 < frame 5) = (\<not> (frame 5 = 0 \<or> frame 5 = 1))"
    using k by (simp add: not_le [symmetric])
  show ?thesis
    by (auto simp: divoom_image_decode_decode_one_def Let_def cmp k k2
        split: option.splits prod.splits)
qed

lemma d64_lookup:
  assumes "divoom_image_decode_decode_one_64 tbl ok fresh ov cpo st (Some frame) = Inr (st', px, c, dl)"
      and "frame 5 \<in> {0xd, 0x10, 0x8d, 0x90}"
  shows "\<exists>pal. palette st' = Some pal \<and>
           looked_up pal frame ((3 * unat (read_u16 frame 6) + 8) mod 65536)
             (tbl (unat (pal_count st'))) 4096 px"
proof -
  have nr: "frame 5 \<notin> {0xb, 0xe, 0x8b, 0x8e}" using assms(2) by auto
  from assms(1) obtain old st1 pal1 where old: "palette st = Some old"
    and ext: "palette_extend ok fresh st old frame = Some (st1, pal1)"
    and res: "Inr (st', px, c, dl) = (let (pixels, consumed) =
                indexed_body tbl pal1 frame (read_u16 frame 6) (unat (pal_count st1)) 0x1000 0x200
              in (Inr (st1, pixels, consumed, read_u16 frame 3) :: failure + decoded))"
    using assms(2) nr
    by (auto simp: divoom_image_decode_decode_one_64_def Let_def simp del: insert_iff
        split: if_splits option.splits prod.splits)
  from ext have p1: "palette st1 = Some pal1"
    by (auto simp: palette_extend_def Let_def split: if_splits prod.splits)
  from res have "st' = st1" and "px = paint pal1 frame ((3 * unat (read_u16 frame 6) + 8) mod 65536)
       (tbl (unat (pal_count st1))) 0 4096"
    by (auto simp: indexed_body_def Let_def unat_off8)
  then show ?thesis using p1 by (simp add: paint_looked_up)
qed

text \<open>
  C2, as the code has it. Every pixel that \<open>decode_one\<close> (kinds 0 and 1) and the
  continuation branch of \<open>decode_one_64\<close> emit is the three bytes of the palette
  buffer at the index read for that pixel, masked to 16 bits; the index is not compared
  with the palette count, and whether \<open>decode_one\<close> accepts a frame depends on its
  header and the handle only: magic byte, kind, and for kind 1 a palette with room for
  the new entries.
\<close>

theorem palette_lookup:
  "(divoom_image_decode_decode_one tbl fresh st (Some frame) = Inr (st', px, c, dl) \<longrightarrow>
      (\<exists>pal. palette st' = Some pal \<and>
         looked_up pal frame (3 * (if frame 5 = 0 \<and> frame 6 = 0 then 256 else unat (frame 6)) + 7)
           (tbl (unat (pal_count st'))) 256 px)) \<and>
   (frame 5 \<in> {0xd, 0x10, 0x8d, 0x90} \<longrightarrow>
    divoom_image_decode_decode_one_64 tbl ok fresh ov cpo st (Some frame) = Inr (st', px, c, dl) \<longrightarrow>
      (\<exists>pal. palette st' = Some pal \<and>
         looked_up pal frame ((3 * unat (read_u16 frame 6) + 8) mod 65536)
           (tbl (unat (pal_count st'))) 4096 px)) \<and>
   ((\<exists>r. divoom_image_decode_decode_one tbl fresh st (Some frame) = Inr r) \<longleftrightarrow>
      frame 0 = 0xAA \<and> frame 5 \<le> 1 \<and>
      (frame 5 = 1 \<longrightarrow> palette st \<noteq> None \<and> unat (pal_count st) + unat (frame 6) \<le> unat (pal_cap st)))"
  using one_lookup [where tbl = tbl and fresh = fresh and st = st and frame = frame and st' = st'
      and px = px and c = c and dl = dl]
    d64_lookup [where tbl = tbl and ok = ok and fresh = fresh and st = st and frame = frame and st' = st'
      and px = px and c = c and dl = dl]
    one_accepts [where tbl = tbl and fresh = fresh and st = st and frame = frame]
  by blast

theorem palette_lookup_witness:
  "\<exists>st' px c dl pal.
     divoom_image_decode_decode_one spec_bits_table (\<lambda>n i. 0x77) (handle_on (stream_of []) 0)
       (Some (stream_of three_colour_frame)) = Inr (st', px, c, dl) \<and>
     palette st' = Some pal \<and>
     looked_up pal (stream_of three_colour_frame) 16 (spec_bits_table (unat (pal_count st'))) 256 px"
proof -
  let ?st = "handle_on (stream_of []) 0"
  let ?f = "stream_of three_colour_frame"
  have hdr: "?f 0 = 0xAA" "?f 5 = 0" "?f 6 = 3"
    by (simp_all add: stream_of_def three_colour_frame_def)
  note t = palette_lookup [where tbl = spec_bits_table and fresh = "\<lambda>n i. 0x77" and st = ?st and frame = ?f]
  have "\<exists>r. divoom_image_decode_decode_one spec_bits_table (\<lambda>n i. 0x77) ?st (Some ?f) = Inr r"
    using t [THEN conjunct2, THEN conjunct2] hdr by simp
  then obtain st' px c dl where run:
    "divoom_image_decode_decode_one spec_bits_table (\<lambda>n i. 0x77) ?st (Some ?f) = Inr (st', px, c, dl)"
    by auto
  from palette_lookup [where tbl = spec_bits_table and fresh = "\<lambda>n i. 0x77" and st = ?st and frame = ?f
      and st' = st' and px = px and c = c and dl = dl, THEN conjunct1] run hdr
  obtain pal where "palette st' = Some pal"
    "looked_up pal ?f 16 (spec_bits_table (unat (pal_count st'))) 256 px"
    by auto
  with run show ?thesis by blast
qed

lemma paint_take3:
  "0 < k \<Longrightarrow> take 3 (paint pal f off bits cur k) =
     [pal (unat (read_index f off cur bits AND 0xffff) * 3),
      pal (unat (read_index f off cur bits AND 0xffff) * 3 + 1),
      pal (unat (read_index f off cur bits AND 0xffff) * 3 + 2)]"
  by (cases k) (simp_all add: Let_def)

lemma three_colour_index: "read_index (stream_of three_colour_frame) 16 0 2 = 3"
  by (simp add: read_index_def Let_def stream_of_def three_colour_frame_def shl32_def shr32_def)

text \<open>
  C2 as stated fails: a frame with three palette entries whose first pixel has index 3
  is decoded, not rejected, and that pixel is the three bytes behind the palette's last
  entry.
\<close>

theorem palette_lookup_counterexample:
  "case divoom_image_decode_decode_one spec_bits_table (\<lambda>n i. 0x77) (handle_on (stream_of []) 0)
          (Some (stream_of three_colour_frame)) of
     Inr (st', px, c, dl) \<Rightarrow>
       pal_count st' = 3 \<and> read_index (stream_of three_colour_frame) 16 0 2 = 3 \<and>
       take 3 px = [0x77, 0x77, 0x77] \<and>
       map (the (palette st')) [0..<9] = [1, 2, 3, 4, 5, 6, 7, 8, 9]
   | Inl e \<Rightarrow> False"
proof -
  have hdr: "stream_of three_colour_frame 0 = 0xAA" "stream_of three_colour_frame 5 = 0"
    "stream_of three_colour_frame 6 = 3"
    by (simp_all add: stream_of_def three_colour_frame_def)
  have pal: "map (copy_bytes (\<lambda>i. 0x77) (stream_of three_colour_frame) 7 9) [0..<9] = [1, 2, 3, 4, 5, 6, 7, 8, 9]"
    by (simp add: copy_bytes_def stream_of_def three_colour_frame_def upt_rec)
  have junk: "copy_bytes (\<lambda>i. 0x77) (stream_of three_colour_frame) 7 9 9 = 0x77"
    "copy_bytes (\<lambda>i. 0x77) (stream_of three_colour_frame) 7 9 10 = 0x77"
    "copy_bytes (\<lambda>i. 0x77) (stream_of three_colour_frame) 7 9 11 = 0x77"
    by (simp_all add: copy_bytes_def)
  show ?thesis
    by (simp add: divoom_image_decode_decode_one_def Let_def hdr spec_bits_table_def paint_take3
        three_colour_index pal junk)
qed

section \<open>Properties of the 11x11 picture codec\<close>

text \<open>
  A run counted from a position below \<open>0x78\<close> leaves the next position below \<open>0x78\<close>
  again: the clamped bound is at most 13 and the run at most 14. So a run-length loop that
  returns was started at \<open>0x78\<close> or beyond, and the loops started at 0 do not return.
\<close>

lemma count_run_le: "count_run idx pos k r \<le> k + r"
proof (induction r arbitrary: k)
  case 0
  then show ?case by simp
next
  case (Suc r)
  from Suc [of "Suc k"] show ?case by simp
qed

text \<open>The palette of a frame has between 1 and 121 colours.\<close>

lemma build_palette_length:
  "length (fst (build_palette img p r pal idx)) \<le> length pal + r \<and>
   length pal \<le> length (fst (build_palette img p r pal idx)) \<and>
   (0 < r \<longrightarrow> 0 < length (fst (build_palette img p r pal idx)))"
proof (induction r arbitrary: p pal idx)
  case 0
  then show ?case by simp
next
  case (Suc r)
  show ?case
  proof (cases "find_colour pal (pixel_at img p) 0")
    case None
    with Suc [of "Suc p" "pal @ [pixel_at img p]" "idx @ [of_nat (length pal)]"]
    show ?thesis by (auto simp: Let_def)
  next
    case (Some i)
    have "pal \<noteq> []" using Some by (cases pal) auto
    with Some Suc [of "Suc p" pal "idx @ [of_nat i]"]
    show ?thesis by (auto simp: Let_def)
  qed
qed

lemma next_run_low:
  assumes "paletteSize < 0x78"
  shows "fst (next_run idx paletteSize) < 0x78"
proof -
  define lim :: u32 where "lim = (if 0xc < 0x77 - paletteSize then 0xd else 0x77 - paletteSize)"
  define k where "k = count_run idx (unat paletteSize) 0 (unat lim + 1)"
  have l: "unat lim \<le> 13"
    unfolding lim_def by (auto simp: word_less_nat_alt word_le_nat_alt not_less)
  have "k \<le> unat lim + 1"
    unfolding k_def using count_run_le [of idx "unat paletteSize" 0 "unat lim + 1"] by simp
  then have k: "k \<le> 14" using l by simp
  have "unat (lim + of_nat k + 1) = unat lim + k + 1"
    using l k by (simp add: unat_word_ariths unat_of_nat)
  then have "unat (lim + of_nat k + 1) \<le> 28" using l k by simp
  moreover have "(lim + of_nat k + 1) AND 0xffff \<le> lim + of_nat k + 1"
    by (rule word_and_le2)
  ultimately have "unat ((lim + of_nat k + 1) AND 0xffff) \<le> 28"
    by (simp add: word_le_nat_alt)
  then have "(lim + of_nat k + 1) AND 0xffff < 0x78"
    by (simp add: word_less_nat_alt)
  moreover have "next_run idx paletteSize = ((lim + of_nat k + 1) AND 0xffff, k + 1)"
    unfolding next_run_def Let_def lim_def k_def using assms by (simp only: if_True)
  ultimately show ?thesis by simp
qed

lemma rle_nibbles_returns:
  assumes "rle_nibbles idx body enc pos d = Some y"
  shows "0x78 \<le> pos"
proof (rule rle_nibbles.raw_induct
    [where P = "\<lambda>idx body enc pos d y. 0x78 \<le> pos", OF _ assms], goal_cases)
  case (1 f idx body enc pos d y)
  show ?case
  proof (rule ccontr)
    assume "\<not> 0x78 \<le> pos"
    then have low: "pos < 0x78" by simp
    obtain r c where nr: "next_run idx pos = (r, c)" by (cases "next_run idx pos")
    with next_run_low [OF low, of idx] have r: "r < 0x78" by simp
    then have "r < 0x79" by (simp add: word_less_nat_alt)
    with 1(2) nr obtain e d' where "f idx body e r d' = Some y"
      by (auto simp: Let_def)
    from 1(1) [OF this] have "0x78 \<le> r" .
    with r show False by simp
  qed
qed

lemma rle_pairs_returns:
  assumes "rle_pairs idx body enc pos d = Some y"
  shows "0x78 \<le> pos"
proof (rule rle_pairs.raw_induct
    [where P = "\<lambda>idx body enc pos d y. 0x78 \<le> pos", OF _ assms], goal_cases)
  case (1 f idx body enc pos d y)
  show ?case
  proof (rule ccontr)
    assume "\<not> 0x78 \<le> pos"
    then have low: "pos < 0x78" by simp
    obtain r c where nr: "next_run idx pos = (r, c)" by (cases "next_run idx pos")
    with next_run_low [OF low, of idx] have r: "r < 0x78" by simp
    then have "r < 0x79" by (simp add: word_less_nat_alt)
    with 1(2) nr obtain e d' where "f idx body e r d' = Some y"
      by (auto simp: Let_def)
    from 1(1) [OF this] have "0x78 \<le> r" .
    with r show False by simp
  qed
qed

lemma encode_nibbles_None: "encode_nibbles b idx body enc = None"
proof (cases "rle_nibbles idx body enc 0 0")
  case None
  then show ?thesis by (simp add: encode_nibbles_def)
next
  case (Some y)
  from rle_nibbles_returns [OF this] show ?thesis by simp
qed

lemma encode_pairs_None: "encode_pairs idx body enc = None"
proof (cases "rle_pairs idx body enc 0 0")
  case None
  then show ?thesis by (simp add: encode_pairs_def)
next
  case (Some y)
  from rle_pairs_returns [OF this] show ?thesis by simp
qed

text \<open>The palette and the bitmap are written behind the mode byte.\<close>

lemma put_entry_head: "put_entry enc k e ! 0 = enc ! 0"
  by (cases e) (simp add: put_entry_def Let_def)

lemma emit_palette_head: "emit_palette enc pal k ! 0 = enc ! 0"
  by (induction pal arbitrary: enc k) (simp_all add: put_entry_head)

lemma emit_bitmap_head: "0 < body \<Longrightarrow> emit_bitmap enc idx body p r ! 0 = enc ! 0"
  by (induction r arbitrary: enc p) (simp_all add: Let_def)

lemma encode_body_Some:
  assumes "encode_body b pal idx c body enc0 = Some (enc, d)"
  shows "c AND 0xffff = 1 \<or> c AND 0xffff = 2" and "0 < body \<Longrightarrow> enc ! 0 = enc0 ! 0"
  using assms
  by (auto simp: encode_body_def Let_def encode_nibbles_None encode_pairs_None
      emit_palette_head emit_bitmap_head split: if_splits)

lemma colour_count:
  "length (fst (build_palette img 0 0x79 [] [])) \<le> 121 \<and>
   0 < length (fst (build_palette img 0 0x79 [] []))"
  using build_palette_length [of img 0 "0x79" "[]" "[]"] by simp

lemma colour_count_word:
  fixes n :: nat
  assumes "n \<le> 121"
  shows "unat ((of_nat n :: u32) AND 0xffff) = n"
proof -
  have "unat (of_nat n :: u32) = n" using assms by (simp add: unat_of_nat)
  moreover have "(of_nat n :: u32) AND 0xffff \<le> of_nat n" by (rule word_and_le2)
  have m: "(0xffff :: u32) = mask 16" by (simp add: mask_eq_exp_minus_1)
  have "(of_nat n :: u32) < 2 ^ 16" using assms by (simp add: word_less_nat_alt unat_of_nat)
  then have "(of_nat n :: u32) AND mask 16 = of_nat n" by (rule less_mask_eq)
  then show ?thesis using m calculation by simp
qed

text \<open>
  Whenever \<open>divoom_pic_encode\<close> returns, the frame has one or two colours and the mode byte
  is 0; on such frames it does return.
\<close>

lemma pic_encode_returns:
  assumes "divoom_pic_encode local_1cb inputImage = Some (encodedData, outputSize)"
  shows "encodedData ! 0 = 0"
    and "length (fst (build_palette inputImage 0 0x79 [] [])) = 1 \<or>
         length (fst (build_palette inputImage 0 0x79 [] [])) = 2"
proof -
  obtain pal idx where bp: "build_palette inputImage 0 0x79 [] [] = (pal, idx)"
    by (cases "build_palette inputImage 0 0x79 [] []")
  define c :: u32 where "c = of_nat (length pal)"
  define po :: u32 where "po = drop_bit 1 ((c AND 0xffff) + (c AND 0xffff) * 2 + 1) + 2"
  define body where "body = unat (po AND 0xffff)"
  define blank :: "u8 list" where "blank = replicate (body + 0x16b) 0"
  define R where "R =
    (if po = 1 then encode_body local_1cb pal idx c body (blank[0 := 4, 1 := ucast c])
     else if po = 2 then encode_body local_1cb pal idx c body (blank[0 := 5, 1 := ucast c])
     else if 0x10 < c AND 0xffff
     then encode_body local_1cb pal idx c body (blank[0 := 2, 1 := ucast c])
     else if c AND 0xffff \<noteq> 0
     then encode_body local_1cb pal idx c body (blank[0 := 0, 1 := ucast c])
     else encode_nibbles local_1cb idx body (blank[0 := 0, 1 := ucast c]))"
  have "divoom_pic_encode local_1cb inputImage =
          map_option (\<lambda>(e, d). (e, d + ucast po)) R"
    unfolding divoom_pic_encode_def bp prod.case Let_def R_def blank_def body_def po_def c_def
    by (rule refl)
  with assms obtain d where R: "R = Some (encodedData, d)" by auto
  define m :: u8 where
    "m = (if po = 1 then 4 else if po = 2 then 5 else if 0x10 < c AND 0xffff then 2 else 0)"
  from R have eb:
    "encode_body local_1cb pal idx c body (blank[0 := m, 1 := ucast c]) = Some (encodedData, d)"
    unfolding R_def m_def by (auto simp: encode_nibbles_None split: if_splits)
  from encode_body_Some(1) [OF eb] have c12: "c AND 0xffff = 1 \<or> c AND 0xffff = 2" .
  then have po45: "po = 4 \<or> po = 5" by (auto simp: po_def)
  then have b: "0 < body" by (auto simp: body_def)
  have "m = 0" using c12 po45 by (auto simp: m_def)
  moreover from encode_body_Some(2) [OF eb b]
  have "encodedData ! 0 = (blank[0 := m, 1 := ucast c]) ! 0" .
  ultimately show "encodedData ! 0 = 0" by (simp add: blank_def)
  have n: "length pal \<le> 121" using colour_count [of inputImage] bp by simp
  from colour_count_word [OF n] c12 have "length pal = 1 \<or> length pal = 2"
    by (auto simp: c_def)
  then show "length (fst (build_palette inputImage 0 0x79 [] [])) = 1 \<or>
         length (fst (build_palette inputImage 0 0x79 [] [])) = 2"
    by (simp add: bp)
qed

lemma pic_encode_returns_on_flat:
  assumes "length (fst (build_palette inputImage 0 0x79 [] [])) = 1 \<or>
           length (fst (build_palette inputImage 0 0x79 [] [])) = 2"
  shows "\<exists>encodedData outputSize.
           divoom_pic_encode local_1cb inputImage = Some (encodedData, outputSize)"
proof -
  obtain pal idx where bp: "build_palette inputImage 0 0x79 [] [] = (pal, idx)"
    by (cases "build_palette inputImage 0 0x79 [] []")
  with assms have "length pal = 1 \<or> length pal = 2" by simp
  then show ?thesis
    by (auto simp: divoom_pic_encode_def bp Let_def encode_body_def)
qed

lemma one_colour_palette:
  "fst (build_palette one_colour_image 0 0x79 [] []) = [(0, 0, 0)]"
  by code_simp

lemma two_colour_palette:
  "fst (build_palette two_colour_image 0 0x79 [] []) = [(0, 0, 0), (0xf, 0xf, 0xf)]"
  by code_simp

text \<open>
  C8 claims that \<open>divoom_pic_encode\<close> emits mode 4 exactly when the palette has one colour
  and mode 5 exactly when it has two. For the frame of one colour the encoder returns mode
  byte 0 with a palette of 1 entry and no body, and for the frame of two colours mode byte 0
  with a palette of 2 entries and the 16-byte bitmap.
\<close>

theorem pic_encode_mode_byte:
  "(case divoom_pic_encode local_1cb one_colour_image of
      None \<Rightarrow> False
    | Some (encodedData, outputSize) \<Rightarrow>
        encodedData ! 0 = 0 \<and> encodedData ! 1 = 1 \<and> outputSize = 4) \<and>
   (case divoom_pic_encode local_1cb two_colour_image of
      None \<Rightarrow> False
    | Some (encodedData, outputSize) \<Rightarrow>
        encodedData ! 0 = 0 \<and> encodedData ! 1 = 2 \<and> outputSize = 21)"
  by code_simp

text \<open>
  With the mode byte the decoder expects for a bitmap body, the two-colour frame comes back
  unchanged: the body and the palette are the ones of mode 5, only the mode byte is not.
\<close>

lemma pic_round_trip_with_mode_5:
  "(case divoom_pic_encode local_1cb two_colour_image of
      None \<Rightarrow> False
    | Some (encodedData, outputSize) \<Rightarrow>
        divoom_pic_decode (replicate 368 0) (replicate 182 0) (encodedData[0 := 5])
          = Some two_colour_image)"
  by code_simp

text \<open>
  C1 claims that decoding the output of the encoder yields the original pixels. The
  two-colour frame is encoded to 21 bytes with mode byte 0; \<open>divoom_pic_decode\<close> reads the
  bitmap as run-length bytes, eight runs of 15 pixels and one of 1 pixel, all of palette
  entry 0, and returns a frame of one colour: pixel 4 is \<open>FFF\<close> in the original and \<open>000\<close>
  in the decoded frame.
\<close>

theorem pic_round_trip_fails:
  "(case divoom_pic_encode local_1cb two_colour_image of
      None \<Rightarrow> False
    | Some (encodedData, outputSize) \<Rightarrow>
        take (unat outputSize) encodedData =
          [0, 2, 0, 0xF0, 0xFF, 0xF0, 0xF0, 0xF0, 0xF0, 0xF0, 0xF0, 0xF0, 0xF0, 0x10,
           0, 0, 0, 0, 0, 0, 0] \<and>
        (case divoom_pic_decode (replicate 368 0) (replicate 182 0) encodedData of
           None \<Rightarrow> False
         | Some decoded \<Rightarrow>
             decoded = replicate 182 0 \<and>
             decoded \<noteq> two_colour_image \<and>
             pixel_at decoded 4 = (0, 0, 0) \<and>
             pixel_at two_colour_image 4 = (0xf, 0xf, 0xf)))"
  by code_simp


end
